theory Spec2Isabelle
  imports Complex_Main
begin

section \<open>Conventions of the embedding\<close>

text \<open>
  Both engines are Go programs over \<^verbatim>\<open>float64\<close> and \<^verbatim>\<open>int\<close>. What a float operation
  returns (its rounding, an overflow to an infinity, a NaN, the outcome of a comparison
  with a NaN) is decided by the machine, not by the program, so the programs are embedded
  over an arbitrary type \<open>'f\<close> of float values and a record \<open>F\<close> of the operations the code
  uses on it. A theorem stated for every \<open>F\<close> uses no law of arithmetic and holds for
  binary64 in particular. Two records are defined for computing examples: \<open>exact\<close>, the
  arithmetic of the reals, and \<open>b64\<close>, which has the range and the special values of
  binary64.

  An untyped constant expression of the source (\<^verbatim>\<open>0.5 * rho * Cd * area\<close>, \<^verbatim>\<open>-g\<close>,
  \<^verbatim>\<open>math.Pi\<close>) is evaluated exactly by the compiler and converted once: it is a real
  number given to \<open>fconst\<close>. Every operation of the source is one operation of \<open>F\<close>, in
  the order of the source; none is fused with another, as on amd64. A Go \<^verbatim>\<open>int\<close> has 64
  bits; the one addition of the code that can leave that range wraps. A slice is a list, a
  panic of the runtime is an error value, and memory is not limited: \<^verbatim>\<open>make\<close> and \<^verbatim>\<open>append\<close>
  succeed for every length that is not negative.
\<close>

record 'f float_ops =
  fconst :: "real \<Rightarrow> 'f"
  fadd :: "'f \<Rightarrow> 'f \<Rightarrow> 'f"
  fsub :: "'f \<Rightarrow> 'f \<Rightarrow> 'f"
  fmul :: "'f \<Rightarrow> 'f \<Rightarrow> 'f"
  fdiv :: "'f \<Rightarrow> 'f \<Rightarrow> 'f"
  fneg :: "'f \<Rightarrow> 'f"
  fsqrt :: "'f \<Rightarrow> 'f"
  fcos :: "'f \<Rightarrow> 'f"
  fsin :: "'f \<Rightarrow> 'f"
  fceil :: "'f \<Rightarrow> 'f"
  feq :: "'f \<Rightarrow> 'f \<Rightarrow> bool"
  flt :: "'f \<Rightarrow> 'f \<Rightarrow> bool"
  fle :: "'f \<Rightarrow> 'f \<Rightarrow> bool"
  fgt :: "'f \<Rightarrow> 'f \<Rightarrow> bool"
  fge :: "'f \<Rightarrow> 'f \<Rightarrow> bool"
  fint :: "'f \<Rightarrow> int"

text \<open>Addition of two \<^verbatim>\<open>int\<close>s: the sum modulo \<open>2\<^sup>6\<^sup>4\<close>, read as a signed number.\<close>

definition wrap64 :: "int \<Rightarrow> int" where
  "wrap64 i = (i + 2 ^ 63) mod 2 ^ 64 - 2 ^ 63"

section \<open>Projectile engine: lab01/backend/main.go\<close>

definition g :: real where "g = 9.81"
definition rho :: real where "rho = 1.225"
definition Cd :: real where "Cd = 0.47"
definition mass :: real where "mass = 1.0"
definition area :: real where "area = 0.01"

record 'f Point =
  X :: 'f
  Y :: 'f
  V :: 'f
  T :: 'f

record 'f SimulationRequest =
  V0 :: 'f
  Angle :: 'f
  H0 :: 'f
  Dt :: 'f

record 'f SimulationResponse =
  Trajectory :: "'f Point list"
  Range :: 'f
  MaxHeight :: 'f
  FinalVelocity :: 'f
  TimeOfFlight :: 'f
  SimulationSteps :: int

text \<open>
  The local variables of \<^verbatim>\<open>simulate\<close> that the loop changes, one field for each
  (\<open>l_vx\<close> is the variable \<^verbatim>\<open>vx\<close>, and so on).
\<close>

record 'f locals =
  l_vx :: 'f
  l_vy :: 'f
  l_x :: 'f
  l_y :: 'f
  l_t :: 'f
  l_trajectory :: "'f Point list"
  l_maxHeight :: 'f
  l_steps :: int

text \<open>
  Lines 68 to 75: the accelerations from the drag force, then the branch for zero speed
  that overwrites both. The quotients \<^verbatim>\<open>vx / v\<close> and \<^verbatim>\<open>vy / v\<close> are whatever the division
  of \<open>F\<close> gives, for \<open>v = 0\<close> too.
\<close>

definition accelerations :: "'f float_ops \<Rightarrow> 'f \<Rightarrow> 'f \<Rightarrow> 'f \<Rightarrow> 'f \<Rightarrow> 'f \<times> 'f" where
  "accelerations F dragForce vx vy v =
     (let ax = fmul F (fneg F (fdiv F dragForce (fconst F mass))) (fdiv F vx v);
          ay = fsub F (fconst F (- g))
                 (fmul F (fdiv F dragForce (fconst F mass)) (fdiv F vy v))
      in if feq F v (fconst F 0) then (fconst F 0, fconst F (- g)) else (ax, ay))"

text \<open>Lines 56 to 84: one pass through the body of the loop, up to \<^verbatim>\<open>steps++\<close>.\<close>

definition loop_body :: "'f float_ops \<Rightarrow> 'f \<Rightarrow> 'f locals \<Rightarrow> 'f locals" where
  "loop_body F dt s =
     (let v = fsqrt F (fadd F (fmul F (l_vx s) (l_vx s)) (fmul F (l_vy s) (l_vy s)));
          trajectory = l_trajectory s @ [\<lparr>X = l_x s, Y = l_y s, V = v, T = l_t s\<rparr>];
          maxHeight = (if fgt F (l_y s) (l_maxHeight s) then l_y s else l_maxHeight s);
          dragForce = fmul F (fmul F (fconst F (0.5 * rho * Cd * area)) v) v;
          (ax, ay) = accelerations F dragForce (l_vx s) (l_vy s) v;
          vx = fadd F (l_vx s) (fmul F ax dt);
          vy = fadd F (l_vy s) (fmul F ay dt);
          x = fadd F (l_x s) (fmul F vx dt);
          y = fadd F (l_y s) (fmul F vy dt);
          t = fadd F (l_t s) dt;
          steps = l_steps s + 1
      in \<lparr>l_vx = vx, l_vy = vy, l_x = x, l_y = y, l_t = t, l_trajectory = trajectory,
          l_maxHeight = maxHeight, l_steps = steps\<rparr>)"

text \<open>
  Lines 55 to 90: \<^verbatim>\<open>for y >= 0 { ...; steps++; if steps > 1000000 { break } }\<close>.
\<close>

function flight_loop :: "'f float_ops \<Rightarrow> 'f \<Rightarrow> 'f locals \<Rightarrow> 'f locals" where
  "flight_loop F dt s =
     (if fge F (l_y s) (fconst F 0) then
        (let s' = loop_body F dt s
         in if l_steps s' > 1000000 then s' else flight_loop F dt s')
      else s)"
  by pat_completeness auto
termination
  by (relation "measure (\<lambda>(F, dt, s). nat (1000001 - l_steps s))")
     (auto simp: loop_body_def Let_def split: prod.splits)

declare flight_loop.simps [simp del]

text \<open>Lines 43 to 52: the initial values of the locals.\<close>

definition initial_locals :: "'f float_ops \<Rightarrow> 'f SimulationRequest \<Rightarrow> 'f locals" where
  "initial_locals F req =
     (let angleRad = fdiv F (fmul F (Angle req) (fconst F pi)) (fconst F 180);
          vx = fmul F (V0 req) (fcos F angleRad);
          vy = fmul F (V0 req) (fsin F angleRad);
          x = fconst F 0;
          y = H0 req;
          t = fconst F 0
      in \<lparr>l_vx = vx, l_vy = vy, l_x = x, l_y = y, l_t = t, l_trajectory = [],
          l_maxHeight = y, l_steps = 0\<rparr>)"

text \<open>The locals when the loop has ended, and lines 92 to 102: the response built from them.\<close>

definition final_locals :: "'f float_ops \<Rightarrow> 'f SimulationRequest \<Rightarrow> 'f locals" where
  "final_locals F req = flight_loop F (Dt req) (initial_locals F req)"

definition simulate :: "'f float_ops \<Rightarrow> 'f SimulationRequest \<Rightarrow> 'f SimulationResponse" where
  "simulate F req =
     (let s = final_locals F req;
          finalV = fsqrt F (fadd F (fmul F (l_vx s) (l_vx s)) (fmul F (l_vy s) (l_vy s)))
      in \<lparr>Trajectory = l_trajectory s, Range = l_x s, MaxHeight = l_maxHeight s,
          FinalVelocity = finalV, TimeOfFlight = l_t s, SimulationSteps = l_steps s\<rparr>)"

text \<open>
  Lines 128 to 135 of \<^verbatim>\<open>simulateHandler\<close>: the validation of a decoded request, and the
  call of \<^verbatim>\<open>simulate\<close>. The initial height is not looked at.
\<close>

datatype http_error = BadRequest

definition simulateHandler ::
  "'f float_ops \<Rightarrow> 'f SimulationRequest \<Rightarrow> http_error + 'f SimulationResponse" where
  "simulateHandler F req =
     (if fle F (V0 req) (fconst F 0) \<or> flt F (Angle req) (fconst F 0) \<or>
         fgt F (Angle req) (fconst F 90) \<or> fle F (Dt req) (fconst F 0)
      then Inl BadRequest
      else Inr (simulate F req))"

section \<open>Heat engine: the lab02 backend (src/unnamed/part_000)\<close>

record 'f SimulationParams =
  Length :: 'f
  TimeStep :: 'f
  SpaceStep :: 'f
  TotalTime :: 'f
  InitialTemp :: 'f
  LeftBoundary :: 'f
  RightBoundary :: 'f
  Alpha :: 'f

record 'f SimulationResult =
  Temperatures :: "'f list"
  Time :: 'f
  CenterTemp :: 'f
  Stable :: bool

text \<open>
  The ways \<^verbatim>\<open>simulateHeatConduction\<close> ends without results: the error of line 54, whose
  message \<^verbatim>\<open>"unstable parameters: r = %f > 0.5"\<close> prints the ratio it carries, and the two
  panics of the runtime that lines 58 to 68 can raise (\<^verbatim>\<open>make\<close> with a negative length,
  an index out of range).
\<close>

datatype 'f heat_error = Unstable 'f | PanicMakeSlice | PanicIndex

text \<open>\<^verbatim>\<open>copy(dst, src)\<close> overwrites the first \<open>min (len dst) (len src)\<close> cells of \<open>dst\<close>.\<close>

definition copy_slice :: "'a list \<Rightarrow> 'a list \<Rightarrow> 'a list" where
  "copy_slice dst src =
     take (min (length dst) (length src)) src @ drop (min (length dst) (length src)) dst"

text \<open>
  Line 49, \<^verbatim>\<open>int(math.Ceil(params.Length/params.SpaceStep)) + 1\<close>; line 52; line 72,
  \<^verbatim>\<open>int(params.TotalTime / params.TimeStep)\<close>. The conversion \<^verbatim>\<open>int(x)\<close> is the \<open>fint\<close> of
  \<open>F\<close>: it drops the fraction of a float that fits, and for one that does not fit the
  language leaves the result to the implementation.
\<close>

definition grid_size :: "'f float_ops \<Rightarrow> 'f SimulationParams \<Rightarrow> int" where
  "grid_size F params =
     wrap64 (fint F (fceil F (fdiv F (Length params) (SpaceStep params))) + 1)"

definition courant :: "'f float_ops \<Rightarrow> 'f SimulationParams \<Rightarrow> 'f" where
  "courant F params =
     fdiv F (fmul F (Alpha params) (TimeStep params))
            (fmul F (SpaceStep params) (SpaceStep params))"

definition step_count :: "'f float_ops \<Rightarrow> 'f SimulationParams \<Rightarrow> int" where
  "step_count F params = fint F (fdiv F (TotalTime params) (TimeStep params))"

text \<open>
  The variables the time loop changes: the buffers \<^verbatim>\<open>T\<close> and \<^verbatim>\<open>Tnew\<close>, \<^verbatim>\<open>currentTime\<close> and
  \<^verbatim>\<open>results\<close>.
\<close>

record 'f heat_locals =
  h_T :: "'f list"
  h_Tnew :: "'f list"
  h_currentTime :: 'f
  h_results :: "'f SimulationResult list"

text \<open>
  Lines 86 to 88: \<^verbatim>\<open>for i := 1; i < n-1; i++ { Tnew[i] = T[i] + r*(T[i+1]-2*T[i]+T[i-1]) }\<close>.
  The buffer \<^verbatim>\<open>T\<close> is the argument \<open>Tcur\<close>. Both buffers have \<open>n\<close> cells and the loop
  runs \<open>i\<close> from \<open>1\<close> to \<open>n - 2\<close>, so every index it uses is in range.
\<close>

function scheme_loop ::
  "'f float_ops \<Rightarrow> 'f \<Rightarrow> int \<Rightarrow> 'f list \<Rightarrow> int \<Rightarrow> 'f list \<Rightarrow> 'f list" where
  "scheme_loop F r n Tcur i Tnew =
     (if i < n - 1 then
        scheme_loop F r n Tcur (i + 1)
          (Tnew[nat i := fadd F (Tcur ! nat i)
             (fmul F r (fadd F (fsub F (Tcur ! nat (i + 1))
                                  (fmul F (fconst F 2) (Tcur ! nat i)))
                          (Tcur ! nat (i - 1))))])
      else Tnew)"
  by pat_completeness auto
termination
  by (relation "measure (\<lambda>(F, r, n, Tcur, i, Tnew). nat (n - 1 - i))") auto

declare scheme_loop.simps [simp del]

text \<open>Lines 85 to 96: one update step, up to \<^verbatim>\<open>currentTime += params.TimeStep\<close>.\<close>

definition update_step ::
  "'f float_ops \<Rightarrow> 'f SimulationParams \<Rightarrow> 'f \<Rightarrow> int \<Rightarrow> 'f heat_locals \<Rightarrow> 'f heat_locals" where
  "update_step F params r n s =
     (let Tnew = scheme_loop F r n (h_T s) 1 (h_Tnew s);
          Tnew = Tnew[0 := LeftBoundary params];
          Tnew = Tnew[nat (n - 1) := RightBoundary params];
          Tcur = copy_slice (h_T s) Tnew;
          currentTime = fadd F (h_currentTime s) (TimeStep params)
      in s\<lparr>h_T := Tcur, h_Tnew := Tnew, h_currentTime := currentTime\<rparr>)"

text \<open>Lines 76 to 81 and 100 to 105: the result appended for the current state.\<close>

definition snapshot :: "'f float_ops \<Rightarrow> 'f \<Rightarrow> int \<Rightarrow> 'f heat_locals \<Rightarrow> 'f SimulationResult" where
  "snapshot F r centerIdx s =
     \<lparr>Temperatures = [] @ h_T s, Time = h_currentTime s,
      CenterTemp = h_T s ! nat centerIdx, Stable = fle F r (fconst F 0.5)\<rparr>"

text \<open>Line 99: the test that decides whether the step just done is stored.\<close>

definition stored :: "int \<Rightarrow> int \<Rightarrow> bool" where
  "stored steps step = (step mod 10 = 0 \<or> step = steps - 1)"

text \<open>
  Lines 85 to 106: the body of the time loop, the update step and then the result stored
  when the test of line 99 holds.
\<close>

definition time_body ::
  "'f float_ops \<Rightarrow> 'f SimulationParams \<Rightarrow> 'f \<Rightarrow> int \<Rightarrow> int \<Rightarrow> int \<Rightarrow> int \<Rightarrow>
   'f heat_locals \<Rightarrow> 'f heat_locals" where
  "time_body F params r n centerIdx steps step s =
     (let s1 = update_step F params r n s
      in if stored steps step
         then s1\<lparr>h_results := h_results s1 @ [snapshot F r centerIdx s1]\<rparr>
         else s1)"

text \<open>
  Lines 84 to 107: \<^verbatim>\<open>for step := 0; step < steps; step++ { ... }\<close>. The counter is never
  negative, so Go's \<^verbatim>\<open>%\<close> and \<open>mod\<close> agree on it; inside the loop \<open>steps\<close> is positive, so
  \<^verbatim>\<open>steps-1\<close> does not wrap.
\<close>

function time_loop ::
  "'f float_ops \<Rightarrow> 'f SimulationParams \<Rightarrow> 'f \<Rightarrow> int \<Rightarrow> int \<Rightarrow> int \<Rightarrow> int \<Rightarrow>
   'f heat_locals \<Rightarrow> 'f heat_locals" where
  "time_loop F params r n centerIdx steps step s =
     (if step < steps then
        time_loop F params r n centerIdx steps (step + 1)
          (time_body F params r n centerIdx steps step s)
      else s)"
  by pat_completeness auto
termination
  by (relation "measure (\<lambda>(F, params, r, n, centerIdx, steps, step, s). nat (steps - step))")
     auto

declare time_loop.simps [simp del]

text \<open>
  Lines 58 to 81, for a grid of \<open>n \<ge> 1\<close> cells: the buffers, the initial and boundary
  values, and the initial state stored as the first result.
\<close>

definition initial_heat ::
  "'f float_ops \<Rightarrow> 'f SimulationParams \<Rightarrow> 'f \<Rightarrow> int \<Rightarrow> 'f heat_locals" where
  "initial_heat F params r n =
     (let Tcur = replicate (nat n) (fconst F 0);
          Tnew = replicate (nat n) (fconst F 0);
          Tcur = map (\<lambda>_. InitialTemp params) Tcur;
          Tcur = Tcur[0 := LeftBoundary params];
          Tcur = Tcur[nat (n - 1) := RightBoundary params];
          s = \<lparr>h_T = Tcur, h_Tnew = Tnew, h_currentTime = fconst F 0, h_results = []\<rparr>
      in s\<lparr>h_results := h_results s @ [snapshot F r (n div 2) s]\<rparr>)"

text \<open>
  Lines 47 to 110. \<^verbatim>\<open>make\<close> panics for a negative \<open>n\<close> and \<^verbatim>\<open>T[0]\<close> for \<open>n = 0\<close>; the
  loop of lines 62 to 64 runs over an empty slice then and does nothing before that.
\<close>

definition heat_final :: "'f float_ops \<Rightarrow> 'f SimulationParams \<Rightarrow> 'f heat_locals" where
  "heat_final F params =
     (let n = grid_size F params; r = courant F params; steps = step_count F params;
          centerIdx = n div 2
      in time_loop F params r n centerIdx steps 0 (initial_heat F params r n))"

definition simulateHeatConduction ::
  "'f float_ops \<Rightarrow> 'f SimulationParams \<Rightarrow> 'f heat_error + 'f SimulationResult list" where
  "simulateHeatConduction F params =
     (let n = grid_size F params;
          r = courant F params
      in if fgt F r (fconst F 0.5) then Inl (Unstable r)
         else if n < 0 then Inl PanicMakeSlice
         else if n = 0 then Inl PanicIndex
         else Inr (h_results (heat_final F params)))"

section \<open>The sampling policy in the words of the specification\<close>

text \<open>
  Section 4.2 of the specification: "emit a frame after every 10th step and
  unconditionally on the final step". Here \<open>k\<close> counts the update steps done, from \<open>1\<close> to
  \<open>steps\<close>, and \<open>frames_every_10th\<close> is the list of frames this wording gives. It is written
  from the specification, to be compared with what the code stores.
\<close>

definition sampled_every_10th :: "int \<Rightarrow> int \<Rightarrow> bool" where
  "sampled_every_10th steps k = (k mod 10 = 0 \<or> k = steps)"

definition frames_every_10th ::
  "'f float_ops \<Rightarrow> 'f SimulationParams \<Rightarrow> 'f SimulationResult list" where
  "frames_every_10th F params =
     (let n = grid_size F params; r = courant F params; steps = step_count F params;
          s0 = initial_heat F params r n
      in snapshot F r (n div 2) s0 #
         map (\<lambda>k. snapshot F r (n div 2) ((update_step F params r n ^^ nat k) s0))
           (filter (sampled_every_10th steps) [1..steps]))"

section \<open>Two arithmetics for examples\<close>

text \<open>
  The conversion \<^verbatim>\<open>int(x)\<close> of a real number: the fraction is dropped, and a value that
  does not fit 64 bits gives \<open>- 2\<^sup>6\<^sup>3\<close>, as on amd64 (arm64 gives the nearest bound; in the
  examples below both make \<open>n\<close> negative).
\<close>

definition int_of_real :: "real \<Rightarrow> int" where
  "int_of_real a =
     (let k = (if a \<ge> 0 then \<lfloor>a\<rfloor> else \<lceil>a\<rceil>)
      in if - (2 ^ 63) \<le> k \<and> k < 2 ^ 63 then k else - (2 ^ 63))"

text \<open>
  \<open>exact\<close>: float values are real numbers and every operation is the exact one, with
  HOL's \<open>a / 0 = 0\<close>. It agrees with binary64 where every result is representable.
\<close>

definition exact :: "real float_ops" where
  "exact = \<lparr>fconst = (\<lambda>c. c), fadd = (+), fsub = (-), fmul = (*), fdiv = (/),
     fneg = uminus, fsqrt = sqrt, fcos = cos, fsin = sin, fceil = (\<lambda>a. of_int \<lceil>a\<rceil>),
     feq = (=), flt = (<), fle = (\<le>), fgt = (>), fge = (\<ge>), fint = int_of_real\<rparr>"

text \<open>
  \<open>b64\<close>: the values of binary64 (a number, the two infinities, NaN; the sign of a zero
  is not kept, a zero divisor counts as \<open>+0\<close>) with its rules for the special values. A
  result whose magnitude reaches \<open>2\<^sup>1\<^sup>0\<^sup>2\<^sup>4 - 2\<^sup>9\<^sup>7\<^sup>0\<close> overflows to an infinity, one of at most
  \<open>2\<^sup>-\<^sup>1\<^sup>0\<^sup>7\<^sup>5\<close> underflows to zero, and any other is kept unrounded. So \<open>b64\<close> agrees with
  binary64 wherever the result of each operation is representable, overflows or
  underflows to zero.
\<close>

datatype f64 = Num real | PInf | NInf | NaN

definition fit :: "real \<Rightarrow> f64" where
  "fit a =
     (if 2 ^ 1024 - 2 ^ 970 \<le> a then PInf
      else if a \<le> - (2 ^ 1024 - 2 ^ 970) then NInf
      else if \<bar>a\<bar> \<le> 1 / 2 ^ 1075 then Num 0
      else Num a)"

fun b64_neg :: "f64 \<Rightarrow> f64" where
  "b64_neg (Num a) = Num (- a)"
| "b64_neg PInf = NInf"
| "b64_neg NInf = PInf"
| "b64_neg NaN = NaN"

fun b64_add :: "f64 \<Rightarrow> f64 \<Rightarrow> f64" where
  "b64_add (Num a) (Num b) = fit (a + b)"
| "b64_add NaN _ = NaN"
| "b64_add _ NaN = NaN"
| "b64_add PInf NInf = NaN"
| "b64_add NInf PInf = NaN"
| "b64_add PInf _ = PInf"
| "b64_add _ PInf = PInf"
| "b64_add NInf _ = NInf"
| "b64_add _ NInf = NInf"

definition b64_sub :: "f64 \<Rightarrow> f64 \<Rightarrow> f64" where
  "b64_sub a b = b64_add a (b64_neg b)"

fun b64_mul :: "f64 \<Rightarrow> f64 \<Rightarrow> f64" where
  "b64_mul (Num a) (Num b) = fit (a * b)"
| "b64_mul NaN _ = NaN"
| "b64_mul _ NaN = NaN"
| "b64_mul (Num a) PInf = (if a = 0 then NaN else if 0 < a then PInf else NInf)"
| "b64_mul (Num a) NInf = (if a = 0 then NaN else if 0 < a then NInf else PInf)"
| "b64_mul PInf (Num b) = (if b = 0 then NaN else if 0 < b then PInf else NInf)"
| "b64_mul NInf (Num b) = (if b = 0 then NaN else if 0 < b then NInf else PInf)"
| "b64_mul PInf PInf = PInf"
| "b64_mul PInf NInf = NInf"
| "b64_mul NInf PInf = NInf"
| "b64_mul NInf NInf = PInf"

fun b64_div :: "f64 \<Rightarrow> f64 \<Rightarrow> f64" where
  "b64_div (Num a) (Num b) =
     (if b = 0 then (if a = 0 then NaN else if 0 < a then PInf else NInf) else fit (a / b))"
| "b64_div NaN _ = NaN"
| "b64_div _ NaN = NaN"
| "b64_div (Num a) _ = Num 0"
| "b64_div PInf (Num b) = (if 0 \<le> b then PInf else NInf)"
| "b64_div NInf (Num b) = (if 0 \<le> b then NInf else PInf)"
| "b64_div _ _ = NaN"

fun b64_sqrt :: "f64 \<Rightarrow> f64" where
  "b64_sqrt (Num a) = (if a < 0 then NaN else Num (sqrt a))"
| "b64_sqrt PInf = PInf"
| "b64_sqrt _ = NaN"

fun b64_cos :: "f64 \<Rightarrow> f64" where
  "b64_cos (Num a) = Num (cos a)"
| "b64_cos _ = NaN"

fun b64_sin :: "f64 \<Rightarrow> f64" where
  "b64_sin (Num a) = Num (sin a)"
| "b64_sin _ = NaN"

fun b64_ceil :: "f64 \<Rightarrow> f64" where
  "b64_ceil (Num a) = Num (of_int \<lceil>a\<rceil>)"
| "b64_ceil a = a"

fun b64_eq :: "f64 \<Rightarrow> f64 \<Rightarrow> bool" where
  "b64_eq (Num a) (Num b) = (a = b)"
| "b64_eq PInf PInf = True"
| "b64_eq NInf NInf = True"
| "b64_eq _ _ = False"

fun b64_lt :: "f64 \<Rightarrow> f64 \<Rightarrow> bool" where
  "b64_lt (Num a) (Num b) = (a < b)"
| "b64_lt NaN _ = False"
| "b64_lt _ NaN = False"
| "b64_lt _ NInf = False"
| "b64_lt NInf _ = True"
| "b64_lt PInf _ = False"
| "b64_lt _ PInf = True"

definition b64_le :: "f64 \<Rightarrow> f64 \<Rightarrow> bool" where
  "b64_le a b = (b64_lt a b \<or> b64_eq a b)"

fun b64_int :: "f64 \<Rightarrow> int" where
  "b64_int (Num a) = int_of_real a"
| "b64_int _ = - (2 ^ 63)"

definition b64 :: "f64 float_ops" where
  "b64 = \<lparr>fconst = fit, fadd = b64_add, fsub = b64_sub, fmul = b64_mul, fdiv = b64_div,
     fneg = b64_neg, fsqrt = b64_sqrt, fcos = b64_cos, fsin = b64_sin, fceil = b64_ceil,
     feq = b64_eq, flt = b64_lt, fle = b64_le, fgt = (\<lambda>a b. b64_lt b a),
     fge = (\<lambda>a b. b64_le b a), fint = b64_int\<rparr>"

section \<open>Inputs of the examples\<close>

text \<open>
  Two plates of length 1 on a grid of three cells, run for 11 steps, one with \<open>r = 1/2\<close>
  and one with \<open>r = 4\<close>; every number of theirs is a binary fraction, so binary64 computes
  them as \<open>exact\<close> does. Then three plates and a shot at the ends of the range of binary64:
  a plate of \<open>2\<^sup>7\<^sup>0\<close> cells, a plate whose quotient \<^verbatim>\<open>length/dx\<close> underflows, a plate whose
  ratio \<open>r\<close> is \<open>Inf/Inf\<close>, and a shot whose squared speed overflows. The numbers
  \<open>2\<^sup>7\<^sup>0\<close>, \<open>2\<^sup>6\<^sup>0\<^sup>0\<close> and \<open>2\<^sup>-\<^sup>6\<^sup>0\<^sup>0\<close> are values of binary64, and a JSON request can carry them.
\<close>

definition plate :: "real SimulationParams" where
  "plate = \<lparr>Length = 1, TimeStep = 1, SpaceStep = 1 / 2, TotalTime = 11, InitialTemp = 20,
     LeftBoundary = 100, RightBoundary = 0, Alpha = 1 / 8\<rparr>"



definition thin_plate :: "f64 SimulationParams" where
  "thin_plate = \<lparr>Length = Num (1 / 2 ^ 600), TimeStep = Num 1, SpaceStep = Num (2 ^ 600),
     TotalTime = Num (1 / 2), InitialTemp = Num 20, LeftBoundary = Num 100,
     RightBoundary = Num 0, Alpha = Num 1\<rparr>"

definition nan_plate :: "f64 SimulationParams" where
  "nan_plate = \<lparr>Length = Num (2 ^ 600), TimeStep = Num (2 ^ 600), SpaceStep = Num (2 ^ 600),
     TotalTime = Num 1, InitialTemp = Num 20, LeftBoundary = Num 100, RightBoundary = Num 0,
     Alpha = Num (2 ^ 600)\<rparr>"

definition fast_shot :: "f64 SimulationRequest" where
  "fast_shot = \<lparr>V0 = Num (2 ^ 600), Angle = Num 0, H0 = Num (- 1), Dt = Num 1\<rparr>"

section \<open>The projectile engine: facts about the loop\<close>

text \<open>The operations of \<open>exact\<close>.\<close>

lemma exact_ops:
  "fconst exact = (\<lambda>c. c)" "fadd exact = (+)" "fsub exact = (-)" "fmul exact = (*)"
  "fdiv exact = (/)" "fneg exact = uminus" "fsqrt exact = sqrt" "fcos exact = cos"
  "fsin exact = sin" "fceil exact = (\<lambda>a. of_int \<lceil>a\<rceil>)" "feq exact = (=)" "flt exact = (<)"
  "fle exact = (\<le>)" "fgt exact = (>)" "fge exact = (\<ge>)" "fint exact = int_of_real"
  by (simp_all add: exact_def)

text \<open>What one pass through the loop body does to each variable, in any arithmetic.\<close>

lemma loop_body_x:
  "l_x (loop_body F dt s) = fadd F (l_x s) (fmul F (l_vx (loop_body F dt s)) dt)"
  by (simp add: loop_body_def Let_def split: prod.splits)

lemma loop_body_y:
  "l_y (loop_body F dt s) = fadd F (l_y s) (fmul F (l_vy (loop_body F dt s)) dt)"
  by (simp add: loop_body_def Let_def split: prod.splits)

lemma loop_body_t: "l_t (loop_body F dt s) = fadd F (l_t s) dt"
  by (simp add: loop_body_def Let_def split: prod.splits)

lemma loop_body_steps: "l_steps (loop_body F dt s) = l_steps s + 1"
  by (simp add: loop_body_def Let_def split: prod.splits)

lemma loop_body_trajectory:
  "l_trajectory (loop_body F dt s) =
     l_trajectory s @
     [\<lparr>X = l_x s, Y = l_y s,
       V = fsqrt F (fadd F (fmul F (l_vx s) (l_vx s)) (fmul F (l_vy s) (l_vy s))),
       T = l_t s\<rparr>]"
  by (simp add: loop_body_def Let_def split: prod.splits)

lemma loop_body_velocities:
  "l_vx (loop_body F dt s) =
     fadd F (l_vx s)
       (fmul F (fst (accelerations F
          (fmul F (fmul F (fconst F (0.5 * rho * Cd * area))
             (fsqrt F (fadd F (fmul F (l_vx s) (l_vx s)) (fmul F (l_vy s) (l_vy s)))))
             (fsqrt F (fadd F (fmul F (l_vx s) (l_vx s)) (fmul F (l_vy s) (l_vy s)))))
          (l_vx s) (l_vy s)
          (fsqrt F (fadd F (fmul F (l_vx s) (l_vx s)) (fmul F (l_vy s) (l_vy s)))))) dt)"
  "l_vy (loop_body F dt s) =
     fadd F (l_vy s)
       (fmul F (snd (accelerations F
          (fmul F (fmul F (fconst F (0.5 * rho * Cd * area))
             (fsqrt F (fadd F (fmul F (l_vx s) (l_vx s)) (fmul F (l_vy s) (l_vy s)))))
             (fsqrt F (fadd F (fmul F (l_vx s) (l_vx s)) (fmul F (l_vy s) (l_vy s)))))
          (l_vx s) (l_vy s)
          (fsqrt F (fadd F (fmul F (l_vx s) (l_vx s)) (fmul F (l_vy s) (l_vy s)))))) dt)"
  by (simp_all add: loop_body_def Let_def split: prod.splits)

text \<open>
  The same in exact arithmetic. For the velocities the branch on \<open>v = 0\<close> is folded in:
  the drag term is \<open>0.5 * rho * Cd * area / mass * v\<close> times the component, which is \<open>0\<close>
  at zero speed.
\<close>

lemma loop_body_vx:
  "l_vx (loop_body exact dt s) =
    l_vx s - 2303 / 800000 * sqrt (l_vx s * l_vx s + l_vy s * l_vy s) * l_vx s * dt"
  by (simp add: loop_body_def accelerations_def exact_ops rho_def Cd_def area_def mass_def
        Let_def)

lemma loop_body_vy:
  "l_vy (loop_body exact dt s) =
    l_vy s + (- g - 2303 / 800000 * sqrt (l_vx s * l_vx s + l_vy s * l_vy s) * l_vy s) * dt"
  by (simp add: loop_body_def accelerations_def exact_ops rho_def Cd_def area_def mass_def
        Let_def)

lemma loop_body_maxHeight: "l_maxHeight (loop_body exact dt s) = max (l_maxHeight s) (l_y s)"
  by (simp add: loop_body_def Let_def max_def exact_ops split: prod.splits)

text \<open>
  The proof rule of the loop: an invariant \<open>I\<close> that the body keeps while the loop goes on
  gives \<open>Q\<close> at both exits, the failed test \<^verbatim>\<open>y >= 0\<close> and the \<^verbatim>\<open>break\<close>.
\<close>

lemma flight_loop_rule:
  assumes "I s"
    and "\<And>s. I s \<Longrightarrow> fge F (l_y s) (fconst F 0) \<Longrightarrow> l_steps (loop_body F dt s) \<le> 1000000 \<Longrightarrow>
           I (loop_body F dt s)"
    and "\<And>s. I s \<Longrightarrow> \<not> fge F (l_y s) (fconst F 0) \<Longrightarrow> Q s"
    and "\<And>s. I s \<Longrightarrow> fge F (l_y s) (fconst F 0) \<Longrightarrow> l_steps (loop_body F dt s) > 1000000 \<Longrightarrow>
           Q (loop_body F dt s)"
  shows "Q (flight_loop F dt s)"
  using assms
proof (induction F dt s rule: flight_loop.induct)
  case (1 F dt s)
  note inv = \<open>I s\<close>
  show ?case
  proof (cases "fge F (l_y s) (fconst F 0)")
    case False
    then have "Q s" using "1.prems"(3) inv by simp
    with False show ?thesis by (simp add: flight_loop.simps [of F dt s] Let_def)
  next
    case True
    note pos = this
    show ?thesis
    proof (cases "l_steps (loop_body F dt s) > 1000000")
      case True
      have "Q (loop_body F dt s)" using "1.prems"(4) inv pos True by blast
      with pos True show ?thesis
        by (simp add: flight_loop.simps [of F dt s] Let_def)
    next
      case False
      then have "I (loop_body F dt s)" using "1.prems"(2) inv pos by simp
      then have "Q (flight_loop F dt (loop_body F dt s))"
        using "1.IH" [OF pos refl False] "1.prems"(2,3,4) by blast
      then show ?thesis using pos False by (simp add: flight_loop.simps [of F dt s] Let_def)
    qed
  qed
qed

text \<open>
  A body dropped from 100 m with a step of one microsecond, in exact arithmetic: for a
  million steps the speed stays below 11 m/s and the height above 90 m, so only the guard
  on \<^verbatim>\<open>steps\<close> ends the loop.
\<close>

lemma slow_fall_step:
  fixes s :: "real locals"
  defines "d \<equiv> (1 / 1000000 :: real)"
  assumes m0: "0 \<le> l_steps s" and m1: "l_steps s \<le> 1000000"
    and vx1: "\<bar>l_vx s\<bar> \<le> 1"
    and vy1: "\<bar>l_vy s\<bar> \<le> g * d * of_int (l_steps s)"
    and y1: "100 - 10 * d * of_int (l_steps s) \<le> l_y s"
  shows "\<bar>l_vx (loop_body exact d s)\<bar> \<le> 1"
    and "\<bar>l_vy (loop_body exact d s)\<bar> \<le> g * d * of_int (l_steps (loop_body exact d s))"
    and "100 - 10 * d * of_int (l_steps (loop_body exact d s)) \<le> l_y (loop_body exact d s)"
proof -
  define m where "m = (of_int (l_steps s) :: real)"
  define v where "v = sqrt (l_vx s * l_vx s + l_vy s * l_vy s)"
  define c where "c = 1 - 2303 / 800000 * v * d"
  have mr: "0 \<le> m" "m \<le> 1000000" using m0 m1 by (simp_all add: m_def)
  have gdm: "g * d * m \<le> 981 / 100" using mr by (simp add: g_def d_def)
  have v0: "0 \<le> v" by (simp add: v_def)
  have "v \<le> \<bar>l_vx s\<bar> + \<bar>l_vy s\<bar>"
    using sqrt_sum_squares_le_sum_abs [of "l_vx s" "l_vy s"] by (simp add: v_def power2_eq_square)
  also have "\<dots> \<le> 1 + 981 / 100" using vx1 vy1 gdm by (simp add: m_def)
  finally have v11: "v \<le> 11" by simp
  have c0: "0 \<le> c" using v11 v0 by (simp add: c_def d_def)
  have c1: "c \<le> 1" using v0 by (simp add: c_def d_def)
  have vx': "l_vx (loop_body exact d s) = l_vx s * c"
    by (simp add: loop_body_vx c_def v_def algebra_simps)
  have vy': "l_vy (loop_body exact d s) = l_vy s * c - g * d"
    by (simp add: loop_body_vy c_def v_def algebra_simps)
  have "\<bar>l_vx s * c\<bar> = \<bar>l_vx s\<bar> * c" using c0 by (simp add: abs_mult)
  also have "\<dots> \<le> \<bar>l_vx s\<bar> * 1" using c1 by (intro mult_left_mono) simp_all
  finally show "\<bar>l_vx (loop_body exact d s)\<bar> \<le> 1" using vx1 by (simp add: vx')
  have "\<bar>l_vy s * c\<bar> = \<bar>l_vy s\<bar> * c" using c0 by (simp add: abs_mult)
  also have "\<dots> \<le> \<bar>l_vy s\<bar> * 1" using c1 by (intro mult_left_mono) simp_all
  finally have a: "\<bar>l_vy s * c\<bar> \<le> g * d * m" using vy1 by (simp add: m_def)
  have gd: "0 \<le> g * d" by (simp add: g_def d_def)
  have "\<bar>l_vy s * c - g * d\<bar> \<le> \<bar>l_vy s * c\<bar> + \<bar>g * d\<bar>" by (rule abs_triangle_ineq4)
  also have "\<dots> \<le> g * d * m + g * d" using a gd by simp
  finally have b: "\<bar>l_vy (loop_body exact d s)\<bar> \<le> g * d * (m + 1)"
    by (simp add: vy' algebra_simps)
  then show "\<bar>l_vy (loop_body exact d s)\<bar> \<le> g * d * of_int (l_steps (loop_body exact d s))"
    by (simp add: loop_body_steps m_def)
  have "g * d * (m + 1) \<le> 10" using mr by (simp add: g_def d_def)
  with b have "\<bar>l_vy (loop_body exact d s)\<bar> \<le> 10" by simp
  then have "- 10 \<le> l_vy (loop_body exact d s)" by simp
  then have "- 10 * d \<le> l_vy (loop_body exact d s) * d" by (simp add: d_def)
  then show "100 - 10 * d * of_int (l_steps (loop_body exact d s)) \<le> l_y (loop_body exact d s)"
    using y1 by (simp add: loop_body_y loop_body_steps exact_ops algebra_simps)
qed

lemma slow_fall_positive:
  fixes s :: "real locals"
  assumes "l_steps s \<le> 1000000" and "100 - 10 * (1 / 1000000) * of_int (l_steps s) \<le> l_y s"
  shows "0 \<le> l_y s"
proof -
  have "(of_int (l_steps s) :: real) \<le> 1000000" using assms(1) by simp
  then show ?thesis using assms(2) by simp
qed

lemma slow_fall_steps:
  "l_steps (flight_loop exact (1 / 1000000)
     \<lparr>l_vx = 1, l_vy = 0, l_x = 0, l_y = 100, l_t = 0, l_trajectory = [],
      l_maxHeight = 100, l_steps = 0\<rparr>) = 1000001"
proof (rule flight_loop_rule [where I = "\<lambda>s. 0 \<le> l_steps s \<and> l_steps s \<le> 1000000 \<and>
          \<bar>l_vx s\<bar> \<le> 1 \<and> \<bar>l_vy s\<bar> \<le> g * (1 / 1000000) * of_int (l_steps s) \<and>
          100 - 10 * (1 / 1000000) * of_int (l_steps s) \<le> l_y s"], goal_cases)
  case 1
  show ?case by simp
next
  case (2 s)
  then show ?case using slow_fall_step [of s] by (simp add: loop_body_steps)
next
  case (3 s)
  then show ?case using slow_fall_positive [of s] by (simp add: exact_ops)
next
  case (4 s)
  then show ?case by (simp add: loop_body_steps)
qed

text \<open>The locals at the end of the loop, from the rule, and the level shot computed.\<close>

lemma initial_locals_eq:
  "initial_locals F req =
     \<lparr>l_vx = fmul F (V0 req)
               (fcos F (fdiv F (fmul F (Angle req) (fconst F pi)) (fconst F 180))),
      l_vy = fmul F (V0 req)
               (fsin F (fdiv F (fmul F (Angle req) (fconst F pi)) (fconst F 180))),
      l_x = fconst F 0, l_y = H0 req, l_t = fconst F 0, l_trajectory = [],
      l_maxHeight = H0 req, l_steps = 0\<rparr>"
  by (simp add: initial_locals_def Let_def)

lemma level_shot_final:
  "final_locals exact \<lparr>V0 = 1, Angle = 0, H0 = 0, Dt = 1\<rparr> =
     \<lparr>l_vx = 797697 / 800000, l_vy = - (981 / 100), l_x = 797697 / 800000,
      l_y = - (981 / 100), l_t = 1, l_trajectory = [\<lparr>X = 0, Y = 0, V = 1, T = 0\<rparr>],
      l_maxHeight = 0, l_steps = 1\<rparr>"
proof -
  let ?s0 = "\<lparr>l_vx = 1, l_vy = 0, l_x = 0, l_y = 0, l_t = 0, l_trajectory = [],
      l_maxHeight = 0, l_steps = 0\<rparr> :: real locals"
  let ?s1 = "\<lparr>l_vx = 797697 / 800000, l_vy = - (981 / 100), l_x = 797697 / 800000,
      l_y = - (981 / 100), l_t = 1, l_trajectory = [\<lparr>X = 0, Y = 0, V = 1, T = 0\<rparr>],
      l_maxHeight = 0, l_steps = 1\<rparr> :: real locals"
  have i: "initial_locals exact \<lparr>V0 = 1, Angle = 0, H0 = 0, Dt = 1\<rparr> = ?s0"
    by (simp add: initial_locals_eq exact_ops)
  have b: "loop_body exact 1 ?s0 = ?s1"
    by (simp add: loop_body_def accelerations_def exact_ops g_def rho_def Cd_def mass_def
          area_def Let_def)
  have "flight_loop exact 1 ?s0 = flight_loop exact 1 ?s1"
    by (subst flight_loop.simps) (simp add: b exact_ops)
  also have "\<dots> = ?s1"
    by (subst flight_loop.simps) (simp add: exact_ops)
  finally show ?thesis by (simp add: final_locals_def i)
qed

lemma level_shot:
  "simulate exact \<lparr>V0 = 1, Angle = 0, H0 = 0, Dt = 1\<rparr> =
     \<lparr>Trajectory = [\<lparr>X = 0, Y = 0, V = 1, T = 0\<rparr>], Range = 797697 / 800000, MaxHeight = 0,
      FinalVelocity = sqrt (797697 / 800000 * (797697 / 800000) + 981 / 100 * (981 / 100)),
      TimeOfFlight = 1, SimulationSteps = 1\<rparr>"
  by (simp add: simulate_def level_shot_final exact_ops)

lemma final_steps_bound:
  "0 \<le> l_steps (final_locals F req) \<and> l_steps (final_locals F req) \<le> 1000001"
  unfolding final_locals_def
proof (rule flight_loop_rule [where I = "\<lambda>s. 0 \<le> l_steps s \<and> l_steps s \<le> 1000000"], goal_cases)
  case 1
  show ?case by (simp add: initial_locals_eq)
next
  case (2 s)
  then show ?case by (simp add: loop_body_steps)
next
  case (3 s)
  then show ?case by simp
next
  case (4 s)
  then show ?case by (simp add: loop_body_steps)
qed

lemma final_trajectory_length:
  "int (length (l_trajectory (final_locals F req))) = l_steps (final_locals F req)"
  unfolding final_locals_def
proof (rule flight_loop_rule [where I = "\<lambda>s. int (length (l_trajectory s)) = l_steps s"], goal_cases)
  case 1
  show ?case by (simp add: initial_locals_eq)
next
  case (2 s)
  then show ?case by (simp add: loop_body_steps loop_body_trajectory)
next
  case (3 s)
  then show ?case by simp
next
  case (4 s)
  then show ?case by (simp add: loop_body_steps loop_body_trajectory)
qed

lemma final_exit:
  "\<not> fge F (l_y (final_locals F req)) (fconst F 0) \<or> l_steps (final_locals F req) > 1000000"
  unfolding final_locals_def
  by (rule flight_loop_rule [where I = "\<lambda>s. True"]) simp_all

lemma final_heights:
  "\<forall>p \<in> set (l_trajectory (final_locals F req)). fge F (Y p) (fconst F 0)"
  unfolding final_locals_def
proof (rule flight_loop_rule
    [where I = "\<lambda>s. \<forall>p \<in> set (l_trajectory s). fge F (Y p) (fconst F 0)"], goal_cases)
  case 1
  show ?case by (simp add: initial_locals_eq)
next
  case (2 s)
  then show ?case by (simp add: loop_body_trajectory)
next
  case (3 s)
  then show ?case by simp
next
  case (4 s)
  then show ?case by (simp add: loop_body_trajectory)
qed

lemma final_after_last:
  "l_trajectory (final_locals F req) = [] \<or>
   (\<exists>s. final_locals F req = loop_body F (Dt req) s)"
  unfolding final_locals_def
proof (rule flight_loop_rule [where I = "\<lambda>s. l_trajectory s = [] \<or>
     (\<exists>s0. s = loop_body F (Dt req) s0)"], goal_cases)
  case 1
  show ?case by (simp add: initial_locals_eq)
next
  case (2 s)
  then show ?case by blast
next
  case (3 s)
  then show ?case by simp
next
  case (4 s)
  then show ?case by blast
qed

lemma final_maxHeight:
  "(l_trajectory (final_locals exact req) = [] \<and>
    l_maxHeight (final_locals exact req) = l_y (final_locals exact req)) \<or>
   (l_trajectory (final_locals exact req) \<noteq> [] \<and>
    l_maxHeight (final_locals exact req) = Max (Y ` set (l_trajectory (final_locals exact req))))"
  unfolding final_locals_def
proof (rule flight_loop_rule [where I = "\<lambda>s. (l_trajectory s = [] \<and> l_maxHeight s = l_y s) \<or>
     (l_trajectory s \<noteq> [] \<and> l_maxHeight s = Max (Y ` set (l_trajectory s)))"], goal_cases)
  case 1
  show ?case by (simp add: initial_locals_eq)
next
  case (2 s)
  then show ?case by (auto simp: loop_body_trajectory loop_body_maxHeight max.commute)
next
  case (3 s)
  then show ?case by simp
next
  case (4 s)
  then show ?case by (auto simp: loop_body_trajectory loop_body_maxHeight max.commute)
qed

text \<open>
  The response in any arithmetic: the three fields read after the last pass, operation for
  operation, and the maximum height, for any comparison \<^verbatim>\<open>>\<close> that is irreflexive and such
  that \<open>c > b\<close> and not \<open>a > b\<close> give not \<open>a > c\<close>; both hold of binary64, NaN included.
\<close>

lemma loop_body_maxHeight_any:
  "l_maxHeight (loop_body F dt s) =
     (if fgt F (l_y s) (l_maxHeight s) then l_y s else l_maxHeight s)"
  by (simp add: loop_body_def Let_def split: prod.splits)

lemma maxHeight_step:
  assumes irrefl: "\<And>a. \<not> fgt F a a"
    and trans: "\<And>a b c. fgt F c b \<Longrightarrow> \<not> fgt F a b \<Longrightarrow> \<not> fgt F a c"
    and inv: "(l_trajectory s = [] \<and> l_maxHeight s = l_y s) \<or>
      (l_maxHeight s \<in> Y ` set (l_trajectory s) \<and>
       (\<forall>p \<in> set (l_trajectory s). \<not> fgt F (Y p) (l_maxHeight s)))"
  shows "l_maxHeight (loop_body F dt s) \<in> Y ` set (l_trajectory (loop_body F dt s)) \<and>
       (\<forall>p \<in> set (l_trajectory (loop_body F dt s)).
          \<not> fgt F (Y p) (l_maxHeight (loop_body F dt s)))"
proof -
  define p0 where "p0 = \<lparr>X = l_x s, Y = l_y s,
       V = fsqrt F (fadd F (fmul F (l_vx s) (l_vx s)) (fmul F (l_vy s) (l_vy s))),
       T = l_t s\<rparr>"
  have tr: "l_trajectory (loop_body F dt s) = l_trajectory s @ [p0]"
    by (simp add: loop_body_trajectory p0_def)
  have yp: "Y p0 = l_y s" by (simp add: p0_def)
  have mh: "l_maxHeight (loop_body F dt s) =
     (if fgt F (l_y s) (l_maxHeight s) then l_y s else l_maxHeight s)"
    by (rule loop_body_maxHeight_any)
  from inv show ?thesis
  proof
    assume a: "l_trajectory s = [] \<and> l_maxHeight s = l_y s"
    then have "l_maxHeight (loop_body F dt s) = l_y s" by (simp add: mh)
    with a show ?thesis by (simp add: tr yp irrefl)
  next
    assume b: "l_maxHeight s \<in> Y ` set (l_trajectory s) \<and>
       (\<forall>p \<in> set (l_trajectory s). \<not> fgt F (Y p) (l_maxHeight s))"
    show ?thesis
    proof (cases "fgt F (l_y s) (l_maxHeight s)")
      case True
      then have m: "l_maxHeight (loop_body F dt s) = l_y s" by (simp add: mh)
      have "\<not> fgt F (Y p) (l_y s)" if "p \<in> set (l_trajectory s)" for p
        using trans [OF True] b that by blast
      then show ?thesis by (simp add: m tr yp irrefl)
    next
      case False
      then have m: "l_maxHeight (loop_body F dt s) = l_maxHeight s" by (simp add: mh)
      from b False show ?thesis by (simp add: m tr yp)
    qed
  qed
qed

lemma final_maxHeight_any:
  assumes irrefl: "\<And>a. \<not> fgt F a a"
    and trans: "\<And>a b c. fgt F c b \<Longrightarrow> \<not> fgt F a b \<Longrightarrow> \<not> fgt F a c"
  shows "(l_trajectory (final_locals F req) = [] \<and>
    l_maxHeight (final_locals F req) = l_y (final_locals F req)) \<or>
   (l_maxHeight (final_locals F req) \<in> Y ` set (l_trajectory (final_locals F req)) \<and>
    (\<forall>p \<in> set (l_trajectory (final_locals F req)).
       \<not> fgt F (Y p) (l_maxHeight (final_locals F req))))"
  unfolding final_locals_def
proof (rule flight_loop_rule [where I = "\<lambda>s. (l_trajectory s = [] \<and> l_maxHeight s = l_y s) \<or>
     (l_maxHeight s \<in> Y ` set (l_trajectory s) \<and>
      (\<forall>p \<in> set (l_trajectory s). \<not> fgt F (Y p) (l_maxHeight s)))"], goal_cases)
  case 1
  show ?case by (simp add: initial_locals_eq)
next
  case (2 s)
  from maxHeight_step [OF irrefl trans 2(1)] show ?case by (rule disjI2)
next
  case (3 s)
  then show ?case by simp
next
  case (4 s)
  from maxHeight_step [OF irrefl trans 4(1)] show ?case by (rule disjI2)
qed

lemma response_fields_any:
  assumes "Trajectory (simulate F req) \<noteq> []"
  shows "Range (simulate F req) =
      fadd F (X (last (Trajectory (simulate F req)))) (fmul F (l_vx (final_locals F req)) (Dt req))"
    and "TimeOfFlight (simulate F req) = fadd F (T (last (Trajectory (simulate F req)))) (Dt req)"
    and "FinalVelocity (simulate F req) =
      fsqrt F (fadd F (fmul F (l_vx (final_locals F req)) (l_vx (final_locals F req)))
                      (fmul F (l_vy (final_locals F req)) (l_vy (final_locals F req))))"
proof -
  from assms have ne: "l_trajectory (final_locals F req) \<noteq> []"
    by (simp add: simulate_def Let_def)
  with final_after_last [of F req] obtain s where
    s: "final_locals F req = loop_body F (Dt req) s"
    by blast
  have "l_x (final_locals F req) =
      fadd F (X (last (l_trajectory (final_locals F req))))
        (fmul F (l_vx (final_locals F req)) (Dt req))"
    by (simp add: s loop_body_x loop_body_trajectory)
  then show "Range (simulate F req) =
      fadd F (X (last (Trajectory (simulate F req)))) (fmul F (l_vx (final_locals F req)) (Dt req))"
    by (simp add: simulate_def Let_def)
  have "l_t (final_locals F req) =
      fadd F (T (last (l_trajectory (final_locals F req)))) (Dt req)"
    by (simp add: s loop_body_t loop_body_trajectory)
  then show "TimeOfFlight (simulate F req) =
      fadd F (T (last (Trajectory (simulate F req)))) (Dt req)"
    by (simp add: simulate_def Let_def)
  show "FinalVelocity (simulate F req) =
      fsqrt F (fadd F (fmul F (l_vx (final_locals F req)) (l_vx (final_locals F req)))
                      (fmul F (l_vy (final_locals F req)) (l_vy (final_locals F req))))"
    by (simp add: simulate_def Let_def)
qed

section \<open>The heat engine: facts about the loops\<close>

lemma copy_slice_same: "length dst = length src \<Longrightarrow> copy_slice dst src = src"
  by (simp add: copy_slice_def)

lemma scheme_loop_length: "length (scheme_loop F r n Tcur i Tnew) = length Tnew"
proof (induction F r n Tcur i Tnew rule: scheme_loop.induct)
  case (1 F r n Tcur i Tnew)
  show ?case
  proof (cases "i < n - 1")
    case True
    with 1 show ?thesis by (simp add: scheme_loop.simps [of F r n Tcur i Tnew])
  next
    case False
    then show ?thesis by (simp add: scheme_loop.simps [of F r n Tcur i Tnew])
  qed
qed


lemma update_step_results: "h_results (update_step F params r n s) = h_results s"
  by (simp add: update_step_def Let_def)


lemma update_step_Tnew_length:
  "length (h_Tnew (update_step F params r n s)) = length (h_Tnew s)"
  by (simp add: update_step_def Let_def scheme_loop_length)

lemma update_step_copy:
  assumes "length (h_T s) = length (h_Tnew s)"
  shows "h_T (update_step F params r n s) = h_Tnew (update_step F params r n s)"
  using assms by (simp add: update_step_def Let_def scheme_loop_length copy_slice_same)

lemma update_step_left:
  assumes "2 \<le> n" and "int (length (h_Tnew s)) = n"
  shows "h_Tnew (update_step F params r n s) ! 0 = LeftBoundary params"
proof -
  have "0 < length (h_Tnew s)" "nat (n - 1) \<noteq> 0" using assms by auto
  then show ?thesis
    by (simp add: update_step_def Let_def scheme_loop_length nth_list_update)
qed

lemma update_step_right:
  assumes "1 \<le> n" and "int (length (h_Tnew s)) = n"
  shows "h_Tnew (update_step F params r n s) ! nat (n - 1) = RightBoundary params"
proof -
  have "nat (n - 1) < length (h_Tnew s)" using assms by auto
  then show ?thesis
    by (simp add: update_step_def Let_def scheme_loop_length nth_list_update)
qed


lemma update_step_set_results:
  "update_step F params r n (s\<lparr>h_results := v\<rparr>) = (update_step F params r n s)\<lparr>h_results := v\<rparr>"
  by (simp add: update_step_def Let_def)

lemma updates_set_results:
  "(update_step F params r n ^^ k) (s\<lparr>h_results := v\<rparr>) =
   ((update_step F params r n ^^ k) s)\<lparr>h_results := v\<rparr>"
  by (induction k) (simp_all add: update_step_set_results)

lemma snapshot_set_results: "snapshot F r c (s\<lparr>h_results := v\<rparr>) = snapshot F r c s"
  by (simp add: snapshot_def)

lemma time_body_eq:
  "time_body F params r n c steps step s =
     (update_step F params r n s)\<lparr>h_results := h_results s @
        (if stored steps step then [snapshot F r c (update_step F params r n s)] else [])\<rparr>"
  by (simp add: time_body_def Let_def update_step_results)

text \<open>
  The time loop in closed form: it leaves the state after \<open>steps - step\<close> update steps, and
  has appended the snapshot taken after step \<open>k\<close> for each \<open>k\<close> that passes the test.
\<close>

lemma time_loop_eq:
  "time_loop F params r n c steps step s =
     ((update_step F params r n ^^ nat (steps - step)) s)\<lparr>h_results := h_results s @
        map (\<lambda>k. snapshot F r c ((update_step F params r n ^^ nat (k + 1 - step)) s))
          (filter (stored steps) [step..steps - 1])\<rparr>"
proof (induction F params r n c steps step s rule: time_loop.induct)
  case (1 F params r n c steps step s)
  show ?case
  proof (cases "step < steps")
    case False
    then show ?thesis by (simp add: time_loop.simps [of F params r n c steps step s])
  next
    case True
    let ?u = "update_step F params r n"
    let ?b = "time_body F params r n c steps step s"
    have up: "[step..steps - 1] = step # [step + 1..steps - 1]"
      using True by (simp add: upto_rec1)
    have n1: "nat (steps - step) = Suc (nat (steps - (step + 1)))" using True by simp
    have pw: "(?u ^^ j) ?b = ((?u ^^ Suc j) s)\<lparr>h_results := h_results ?b\<rparr>" for j
      by (simp add: time_body_eq updates_set_results funpow_swap1)
    have sn: "snapshot F r c ((?u ^^ nat (k + 1 - (step + 1))) ?b) =
              snapshot F r c ((?u ^^ nat (k + 1 - step)) s)"
      if "k \<in> set [step + 1..steps - 1]" for k
    proof -
      from that have "step + 1 \<le> k" by simp
      then have "nat (k + 1 - step) = Suc (nat (k + 1 - (step + 1)))" by linarith
      then show ?thesis by (simp only: pw snapshot_set_results)
    qed
    have "time_loop F params r n c steps step s =
        time_loop F params r n c steps (step + 1) ?b"
      using True by (simp add: time_loop.simps [of F params r n c steps step s])
    also have "\<dots> = ((?u ^^ nat (steps - (step + 1))) ?b)\<lparr>h_results := h_results ?b @
        map (\<lambda>k. snapshot F r c ((?u ^^ nat (k + 1 - (step + 1))) ?b))
          (filter (stored steps) [step + 1..steps - 1])\<rparr>"
      using "1.IH" [OF True] .
    also have "map (\<lambda>k. snapshot F r c ((?u ^^ nat (k + 1 - (step + 1))) ?b))
          (filter (stored steps) [step + 1..steps - 1]) =
        map (\<lambda>k. snapshot F r c ((?u ^^ nat (k + 1 - step)) s))
          (filter (stored steps) [step + 1..steps - 1])"
    proof (rule map_cong [OF refl])
      fix k
      assume "k \<in> set (filter (stored steps) [step + 1..steps - 1])"
      then have "k \<in> set [step + 1..steps - 1]" by simp
      then show "snapshot F r c ((?u ^^ nat (k + 1 - (step + 1))) ?b) =
                 snapshot F r c ((?u ^^ nat (k + 1 - step)) s)"
        by (rule sn)
    qed
    finally have e: "time_loop F params r n c steps step s =
        ((?u ^^ nat (steps - (step + 1))) ?b)\<lparr>h_results := h_results ?b @
          map (\<lambda>k. snapshot F r c ((?u ^^ nat (k + 1 - step)) s))
            (filter (stored steps) [step + 1..steps - 1])\<rparr>" .
    have hb: "h_results ?b =
        h_results s @ (if stored steps step then [snapshot F r c (?u s)] else [])"
      by (simp add: time_body_eq)
    have f0: "(?u ^^ nat (step + 1 - step)) s = ?u s" by simp
    have ow: "((?u ^^ nat (steps - (step + 1))) ?b)\<lparr>h_results := w\<rparr> =
        ((?u ^^ nat (steps - step)) s)\<lparr>h_results := w\<rparr>" for w
      by (simp only: pw n1) simp
    show ?thesis
      by (simp only: e ow hb up filter.simps list.map f0 append_assoc
            split: if_splits) simp
  qed
qed

lemma initial_heat_eq:
  "initial_heat F params r n =
     \<lparr>h_T = (replicate (nat n) (InitialTemp params))
              [0 := LeftBoundary params, nat (n - 1) := RightBoundary params],
      h_Tnew = replicate (nat n) (fconst F 0), h_currentTime = fconst F 0,
      h_results = [\<lparr>Temperatures = (replicate (nat n) (InitialTemp params))
              [0 := LeftBoundary params, nat (n - 1) := RightBoundary params],
          Time = fconst F 0,
          CenterTemp = (replicate (nat n) (InitialTemp params))
              [0 := LeftBoundary params, nat (n - 1) := RightBoundary params] ! nat (n div 2),
          Stable = fle F r (fconst F 0.5)\<rparr>]\<rparr>"
  by (simp add: initial_heat_def Let_def snapshot_def)

lemma initial_heat_results:
  "h_results (initial_heat F params r n) = [snapshot F r (n div 2) (initial_heat F params r n)]"
  by (simp add: initial_heat_eq snapshot_def)

lemma heat_final_eq:
  "heat_final F params =
     ((update_step F params (courant F params) (grid_size F params) ^^
         nat (step_count F params))
        (initial_heat F params (courant F params) (grid_size F params)))
     \<lparr>h_results :=
        snapshot F (courant F params) (grid_size F params div 2)
          (initial_heat F params (courant F params) (grid_size F params)) #
        map (\<lambda>k. snapshot F (courant F params) (grid_size F params div 2)
              ((update_step F params (courant F params) (grid_size F params) ^^ nat (k + 1))
                 (initial_heat F params (courant F params) (grid_size F params))))
          (filter (stored (step_count F params)) [0..step_count F params - 1])\<rparr>"
  by (simp add: heat_final_def Let_def time_loop_eq initial_heat_results)

text \<open>When the run returns frames, and which.\<close>

lemma heat_run_cases:
  "simulateHeatConduction F params = Inr fs \<longleftrightarrow>
     \<not> fgt F (courant F params) (fconst F 0.5) \<and> 1 \<le> grid_size F params \<and>
     fs = h_results (heat_final F params)"
  by (auto simp: simulateHeatConduction_def Let_def)

lemma heat_run_eq:
  assumes "\<not> fgt F (courant F params) (fconst F 0.5)" and "1 \<le> grid_size F params"
  shows "simulateHeatConduction F params =
     Inr (snapshot F (courant F params) (grid_size F params div 2)
          (initial_heat F params (courant F params) (grid_size F params)) #
        map (\<lambda>k. snapshot F (courant F params) (grid_size F params div 2)
              ((update_step F params (courant F params) (grid_size F params) ^^ nat (k + 1))
                 (initial_heat F params (courant F params) (grid_size F params))))
          (filter (stored (step_count F params)) [0..step_count F params - 1]))"
  using assms by (simp add: simulateHeatConduction_def Let_def heat_final_eq)

lemma heat_run_frames:
  assumes "simulateHeatConduction F params = Inr fs" and "f \<in> set fs"
  shows "\<exists>k. f = snapshot F (courant F params) (grid_size F params div 2)
              ((update_step F params (courant F params) (grid_size F params) ^^ k)
                 (initial_heat F params (courant F params) (grid_size F params)))"
proof -
  let ?u = "update_step F params (courant F params) (grid_size F params)"
  let ?s0 = "initial_heat F params (courant F params) (grid_size F params)"
  from assms(1) have c: "\<not> fgt F (courant F params) (fconst F 0.5)" "1 \<le> grid_size F params"
    by (simp_all add: heat_run_cases)
  from heat_run_eq [OF c] assms
  have "f = snapshot F (courant F params) (grid_size F params div 2) ((?u ^^ 0) ?s0) \<or>
        (\<exists>k. f = snapshot F (courant F params) (grid_size F params div 2)
                ((?u ^^ nat (k + 1)) ?s0))"
    by auto
  then show ?thesis by blast
qed

text \<open>On a grid of at least two cells the buffers keep their size and their two ends.\<close>

lemma updates_boundaries:
  assumes "2 \<le> n"
    and "int (length (h_T s)) = n" and "int (length (h_Tnew s)) = n"
    and "h_T s ! 0 = LeftBoundary params" and "h_T s ! nat (n - 1) = RightBoundary params"
  shows "int (length (h_T ((update_step F params r n ^^ k) s))) = n \<and>
         int (length (h_Tnew ((update_step F params r n ^^ k) s))) = n \<and>
         h_T ((update_step F params r n ^^ k) s) ! 0 = LeftBoundary params \<and>
         h_T ((update_step F params r n ^^ k) s) ! nat (n - 1) = RightBoundary params"
proof (induction k)
  case 0
  show ?case using assms by simp
next
  case (Suc k)
  let ?s = "(update_step F params r n ^^ k) s"
  from Suc have l: "int (length (h_T ?s)) = n" "int (length (h_Tnew ?s)) = n" by simp_all
  then have c: "h_T (update_step F params r n ?s) = h_Tnew (update_step F params r n ?s)"
    by (intro update_step_copy) linarith
  show ?case
    using l assms(1) update_step_left [of n ?s F params r]
      update_step_right [of n ?s F params r]
    by (simp add: c update_step_Tnew_length)
qed

lemma initial_heat_boundaries:
  assumes "2 \<le> n"
  shows "int (length (h_T (initial_heat F params r n))) = n"
    and "int (length (h_Tnew (initial_heat F params r n))) = n"
    and "h_T (initial_heat F params r n) ! 0 = LeftBoundary params"
    and "h_T (initial_heat F params r n) ! nat (n - 1) = RightBoundary params"
proof -
  have "0 < nat n" "nat (n - 1) < nat n" "nat (n - 1) \<noteq> 0" using assms by auto
  then show "h_T (initial_heat F params r n) ! 0 = LeftBoundary params"
    and "h_T (initial_heat F params r n) ! nat (n - 1) = RightBoundary params"
    by (simp_all add: initial_heat_eq nth_list_update)
  show "int (length (h_T (initial_heat F params r n))) = n"
    and "int (length (h_Tnew (initial_heat F params r n))) = n"
    using assms by (simp_all add: initial_heat_eq)
qed

text \<open>
  The field \<^verbatim>\<open>Stable\<close> of every frame returned is the value of the test \<^verbatim>\<open>r <= 0.5\<close>, while
  frames are returned when the other test, \<^verbatim>\<open>r > 0.5\<close>, fails.
\<close>

lemma frames_stable_field:
  assumes "simulateHeatConduction F params = Inr fs" and "f \<in> set fs"
  shows "Stable f = fle F (courant F params) (fconst F 0.5)"
proof -
  from heat_run_frames [OF assms] obtain k where
    "f = snapshot F (courant F params) (grid_size F params div 2)
           ((update_step F params (courant F params) (grid_size F params) ^^ k)
              (initial_heat F params (courant F params) (grid_size F params)))" ..
  then show ?thesis by (simp add: snapshot_def)
qed

section \<open>The examples computed\<close>

text \<open>The operations of \<open>b64\<close>, and the runs of the plates.\<close>

lemma b64_ops:
  "fconst b64 = fit" "fadd b64 = b64_add" "fsub b64 = b64_sub" "fmul b64 = b64_mul"
  "fdiv b64 = b64_div" "fneg b64 = b64_neg" "fsqrt b64 = b64_sqrt" "fcos b64 = b64_cos"
  "fsin b64 = b64_sin" "fceil b64 = b64_ceil" "feq b64 = b64_eq" "flt b64 = b64_lt"
  "fle b64 = b64_le" "fgt b64 = (\<lambda>a b. b64_lt b a)" "fge b64 = (\<lambda>a b. b64_le b a)"
  "fint b64 = b64_int"
  by (simp_all add: b64_def)

lemma plate_numbers:
  "courant exact plate = 1 / 2" "grid_size exact plate = 3" "step_count exact plate = 11"
  by (simp_all add: courant_def grid_size_def step_count_def exact_ops int_of_real_def
        wrap64_def plate_def)

lemma plate_initial:
  "initial_heat exact plate (1 / 2) 3 =
     \<lparr>h_T = [100, 20, 0], h_Tnew = [0, 0, 0], h_currentTime = 0,
      h_results = [\<lparr>Temperatures = [100, 20, 0], Time = 0, CenterTemp = 20, Stable = True\<rparr>]\<rparr>"
  by (simp add: initial_heat_eq exact_ops plate_def eval_nat_numeral)

lemma plate_update:
  "update_step exact plate (1 / 2) 3
     \<lparr>h_T = [100, a, 0], h_Tnew = [b1, b2, b3], h_currentTime = t, h_results = rs\<rparr> =
     \<lparr>h_T = [100, 50, 0], h_Tnew = [100, 50, 0], h_currentTime = t + 1, h_results = rs\<rparr>"
proof -
  have "scheme_loop exact (1 / 2) 3 [100, a, 0] 1 [b1, b2, b3] = [b1, 50, b3]"
    by (simp add: scheme_loop.simps [of _ _ _ _ 1] scheme_loop.simps [of _ _ _ _ 2]
          exact_ops eval_nat_numeral field_simps)
  then show ?thesis
    by (simp add: update_step_def Let_def copy_slice_def exact_ops plate_def eval_nat_numeral)
qed

lemma plate_updates:
  "(update_step exact plate (1 / 2) 3 ^^ Suc k) (initial_heat exact plate (1 / 2) 3) =
     \<lparr>h_T = [100, 50, 0], h_Tnew = [100, 50, 0], h_currentTime = 1 + of_nat k,
      h_results = [\<lparr>Temperatures = [100, 20, 0], Time = 0, CenterTemp = 20, Stable = True\<rparr>]\<rparr>"
proof (induction k)
  case 0
  show ?case by (simp add: plate_initial plate_update)
next
  case (Suc k)
  have "(update_step exact plate (1 / 2) 3 ^^ Suc (Suc k)) (initial_heat exact plate (1 / 2) 3) =
        update_step exact plate (1 / 2) 3
          ((update_step exact plate (1 / 2) 3 ^^ Suc k) (initial_heat exact plate (1 / 2) 3))"
    by simp
  also have "\<dots> = \<lparr>h_T = [100, 50, 0], h_Tnew = [100, 50, 0],
      h_currentTime = 1 + of_nat (Suc k),
      h_results = [\<lparr>Temperatures = [100, 20, 0], Time = 0, CenterTemp = 20, Stable = True\<rparr>]\<rparr>"
    by (simp only: Suc plate_update) simp
  finally show ?case .
qed

lemma plate_run:
  "simulateHeatConduction exact plate =
     Inr [\<lparr>Temperatures = [100, 20, 0], Time = 0, CenterTemp = 20, Stable = True\<rparr>,
          \<lparr>Temperatures = [100, 50, 0], Time = 1, CenterTemp = 50, Stable = True\<rparr>,
          \<lparr>Temperatures = [100, 50, 0], Time = 11, CenterTemp = 50, Stable = True\<rparr>]"
proof -
  have f: "filter (stored 11) [0..11 - 1] = [0, 10]" by code_simp
  have n: "nat (0 + 1) = Suc 0" "nat (10 + 1) = Suc 10" by simp_all
  have c: "\<not> fgt exact (courant exact plate) (fconst exact 0.5)" "1 \<le> grid_size exact plate"
    by (simp_all add: plate_numbers exact_ops)
  show ?thesis
    unfolding heat_run_eq [OF c] plate_numbers
    by (simp only: f list.map n plate_updates) (simp add: snapshot_def plate_initial exact_ops)
qed

lemma plate_every_10th:
  "frames_every_10th exact plate =
     [\<lparr>Temperatures = [100, 20, 0], Time = 0, CenterTemp = 20, Stable = True\<rparr>,
      \<lparr>Temperatures = [100, 50, 0], Time = 10, CenterTemp = 50, Stable = True\<rparr>,
      \<lparr>Temperatures = [100, 50, 0], Time = 11, CenterTemp = 50, Stable = True\<rparr>]"
proof -
  have f: "filter (sampled_every_10th 11) [1..11] = [10, 11]" by code_simp
  have n: "nat 10 = Suc 9" "nat 11 = Suc 10" by simp_all
  show ?thesis
    unfolding frames_every_10th_def Let_def plate_numbers
    by (simp only: f list.map n plate_updates) (simp add: snapshot_def plate_initial exact_ops)
qed



lemma thin_plate_numbers:
  "courant b64 thin_plate = Num 0" "grid_size b64 thin_plate = 1" "step_count b64 thin_plate = 0"
  by (simp_all add: courant_def grid_size_def step_count_def b64_ops fit_def
        int_of_real_def wrap64_def thin_plate_def)

lemma thin_plate_run:
  "simulateHeatConduction b64 thin_plate =
     Inr [\<lparr>Temperatures = [Num 0], Time = Num 0, CenterTemp = Num 0, Stable = True\<rparr>]"
proof -
  have c: "\<not> fgt b64 (courant b64 thin_plate) (fconst b64 0.5)" "1 \<le> grid_size b64 thin_plate"
    by (simp_all add: thin_plate_numbers b64_ops fit_def)
  show ?thesis
    unfolding heat_run_eq [OF c] thin_plate_numbers
    by (simp add: snapshot_def initial_heat_eq b64_ops fit_def b64_le_def thin_plate_def)
qed

lemma nan_plate_numbers:
  "courant b64 nan_plate = NaN" "grid_size b64 nan_plate = 2" "step_count b64 nan_plate = 0"
  by (simp_all add: courant_def grid_size_def step_count_def b64_ops fit_def
        int_of_real_def wrap64_def nan_plate_def)

lemma nan_plate_run:
  "simulateHeatConduction b64 nan_plate =
     Inr [\<lparr>Temperatures = [Num 100, Num 0], Time = Num 0, CenterTemp = Num 0,
           Stable = False\<rparr>]"
proof -
  have c: "\<not> fgt b64 (courant b64 nan_plate) (fconst b64 0.5)" "1 \<le> grid_size b64 nan_plate"
    by (simp_all add: nan_plate_numbers b64_ops fit_def)
  show ?thesis
    unfolding heat_run_eq [OF c] nan_plate_numbers
    by (simp add: snapshot_def initial_heat_eq b64_ops fit_def b64_le_def nan_plate_def
          eval_nat_numeral)
qed

text \<open>
  A negative length passes the test of the ratio and ends in one of the two panics.
\<close>

lemma ceiling_minus_one_real: "\<lceil>- 1 :: real\<rceil> = - 1"
  using ceiling_of_int [of "- 1", where ?'a = real] by simp

lemma negative_length_panics:
  "simulateHeatConduction exact (plate\<lparr>Length := - (3 / 4)\<rparr>) = Inl PanicIndex"
  "simulateHeatConduction exact (plate\<lparr>Length := - (7 / 4)\<rparr>) = Inl PanicMakeSlice"
  by (simp_all add: simulateHeatConduction_def Let_def courant_def grid_size_def exact_ops
        int_of_real_def wrap64_def plate_def ceiling_minus_one_real)

text \<open>The shot whose squared speed overflows.\<close>

lemma fit_pi: "fit pi = Num pi"
proof -
  have "2 \<le> pi" "pi < 4" using pi_ge_two pi_less_4 by simp_all
  then show ?thesis by (simp add: fit_def)
qed

lemma fast_shot_initial:
  "initial_locals b64 fast_shot =
     \<lparr>l_vx = Num (2 ^ 600), l_vy = Num 0, l_x = Num 0, l_y = Num (- 1), l_t = Num 0,
      l_trajectory = [], l_maxHeight = Num (- 1), l_steps = 0\<rparr>"
proof -
  have "fdiv b64 (fmul b64 (Num 0) (fconst b64 pi)) (fconst b64 180) = Num 0"
    by (simp add: b64_ops fit_pi) (simp add: fit_def)
  then show ?thesis
    by (simp add: initial_locals_eq fast_shot_def) (simp add: b64_ops fit_def)
qed

lemma fast_shot_final: "final_locals b64 fast_shot = initial_locals b64 fast_shot"
  unfolding final_locals_def
  by (subst flight_loop.simps)
     (simp add: fast_shot_initial b64_ops b64_le_def fit_def)

lemma fast_shot_run:
  "simulate b64 fast_shot =
     \<lparr>Trajectory = [], Range = Num 0, MaxHeight = Num (- 1), FinalVelocity = PInf,
      TimeOfFlight = Num 0, SimulationSteps = 0\<rparr>"
  by (simp add: simulate_def Let_def fast_shot_final fast_shot_initial b64_ops fit_def)

section \<open>The claims\<close>

subsection \<open>C1: the stability gate\<close>




subsection \<open>C2: the boundary cells\<close>

text \<open>
  Claim C2, as the code has it. If the test \<^verbatim>\<open>r > 0.5\<close> fails and the grid size \<open>n\<close> that the
  code computes, \<^verbatim>\<open>int(math.Ceil(length/dx)) + 1\<close>, is at least \<open>2\<close>, then the run returns
  frames, and every one of them, the initial one included, has \<open>n\<close> temperatures, the value
  of \<^verbatim>\<open>leftBoundary\<close> at index \<open>0\<close> and the value of \<^verbatim>\<open>rightBoundary\<close> at index \<open>n - 1\<close>. The
  equalities are between the stored values themselves, in every arithmetic \<open>F\<close>.
\<close>

theorem boundary_cells:
  assumes "\<not> fgt F (courant F params) (fconst F 0.5)" and "2 \<le> grid_size F params"
  shows "\<exists>fs. simulateHeatConduction F params = Inr fs \<and> fs \<noteq> [] \<and>
    (\<forall>f \<in> set fs.
       int (length (Temperatures f)) = grid_size F params \<and>
       Temperatures f ! 0 = LeftBoundary params \<and>
       Temperatures f ! nat (grid_size F params - 1) = RightBoundary params)"
proof -
  let ?n = "grid_size F params"
  let ?s0 = "initial_heat F params (courant F params) ?n"
  have n1: "1 \<le> ?n" using assms(2) by simp
  have b: "int (length (h_T ((update_step F params (courant F params) ?n ^^ k) ?s0))) = ?n \<and>
         h_T ((update_step F params (courant F params) ?n ^^ k) ?s0) ! 0 = LeftBoundary params \<and>
         h_T ((update_step F params (courant F params) ?n ^^ k) ?s0) ! nat (?n - 1) =
           RightBoundary params" for k
    using updates_boundaries [OF assms(2)
        initial_heat_boundaries [OF assms(2), where F = F and params = params
          and r = "courant F params"],
        where F = F and r = "courant F params" and k = k]
    by simp
  have run: "simulateHeatConduction F params = Inr (projr (simulateHeatConduction F params))"
    and ne: "projr (simulateHeatConduction F params) \<noteq> []"
    using heat_run_eq [OF assms(1) n1] by simp_all
  have "int (length (Temperatures f)) = ?n \<and>
       Temperatures f ! 0 = LeftBoundary params \<and>
       Temperatures f ! nat (?n - 1) = RightBoundary params"
    if "f \<in> set (projr (simulateHeatConduction F params))" for f
  proof -
    from heat_run_frames [OF run that] obtain k where
      "f = snapshot F (courant F params) (?n div 2)
             ((update_step F params (courant F params) ?n ^^ k) ?s0)" ..
    then show ?thesis using b [of k] by (simp add: snapshot_def)
  qed
  with run ne show ?thesis by blast
qed

text \<open>The last frame of the plate of three cells: three temperatures, 100 and 0 at the ends.\<close>

theorem boundary_cells_witness:
  "\<not> fgt exact (courant exact plate) (fconst exact 0.5) \<and> 2 \<le> grid_size exact plate \<and>
   length (Temperatures (last (projr (simulateHeatConduction exact plate)))) = 3 \<and>
   Temperatures (last (projr (simulateHeatConduction exact plate))) ! 0 = 100 \<and>
   Temperatures (last (projr (simulateHeatConduction exact plate))) ! 2 = 0"
proof -
  have p: "\<not> fgt exact (courant exact plate) (fconst exact 0.5)" "2 \<le> grid_size exact plate"
    by (simp_all add: plate_numbers exact_ops)
  from boundary_cells [OF p] obtain fs where fs: "simulateHeatConduction exact plate = Inr fs"
    "fs \<noteq> []"
    and all: "\<forall>f \<in> set fs.
       int (length (Temperatures f)) = grid_size exact plate \<and>
       Temperatures f ! 0 = LeftBoundary plate \<and>
       Temperatures f ! nat (grid_size exact plate - 1) = RightBoundary plate"
    by blast
  from fs have "last fs \<in> set fs" by simp
  with all have "int (length (Temperatures (last fs))) = grid_size exact plate \<and>
       Temperatures (last fs) ! 0 = LeftBoundary plate \<and>
       Temperatures (last fs) ! nat (grid_size exact plate - 1) = RightBoundary plate"
    by blast
  then have "length (Temperatures (last fs)) = 3 \<and> Temperatures (last fs) ! 0 = 100 \<and>
       Temperatures (last fs) ! 2 = 0"
    by (simp add: plate_numbers) (simp add: plate_def)
  with p fs show ?thesis by simp
qed

text \<open>
  Claim C2, as written, asks only for positive parameters and \<open>r \<le> 0.5\<close>. For the length
  \<open>2\<^sup>-\<^sup>6\<^sup>0\<^sup>0\<close> and \<open>dx = 2\<^sup>6\<^sup>0\<^sup>0\<close> the quotient underflows to \<open>0\<close>, so the grid has the single cell
  \<open>0 = n - 1\<close>: line 67 writes the left boundary value 100 to it, line 68 overwrites it with
  the right one, and the frame returned has \<open>0\<close> at index \<open>0\<close>, not the left boundary value.
\<close>

theorem boundary_cells_counterexample:
  "fgt b64 (Length thin_plate) (fconst b64 0) \<and> fgt b64 (TimeStep thin_plate) (fconst b64 0) \<and>
   fgt b64 (SpaceStep thin_plate) (fconst b64 0) \<and> fgt b64 (Alpha thin_plate) (fconst b64 0) \<and>
   fle b64 (courant b64 thin_plate) (fconst b64 0.5) \<and>
   simulateHeatConduction b64 thin_plate =
     Inr [\<lparr>Temperatures = [Num 0], Time = Num 0, CenterTemp = Num 0, Stable = True\<rparr>] \<and>
   LeftBoundary thin_plate = Num 100 \<and>
   Temperatures (hd (projr (simulateHeatConduction b64 thin_plate))) ! 0 \<noteq>
     LeftBoundary thin_plate"
  by (simp add: thin_plate_run thin_plate_numbers b64_ops b64_le_def)
     (simp add: thin_plate_def fit_def)

subsection \<open>C3: termination and the step guard\<close>

text \<open>
  Claim C3, as the code has it. \<^verbatim>\<open>simulate\<close> is a total function (the loop ends for every
  request and in every arithmetic, by the measure \<open>1000001 - steps\<close>), it returns a response
  and no error, its step count is at most 1,000,001, and the trajectory holds one point
  for each step: the guard \<^verbatim>\<open>steps > 1000000\<close> is tested after the increment, so it ends the
  loop after step 1,000,001.
\<close>

theorem step_guard_bound:
  "0 \<le> SimulationSteps (simulate F req) \<and> SimulationSteps (simulate F req) \<le> 1000001 \<and>
   int (length (Trajectory (simulate F req))) = SimulationSteps (simulate F req)"
  using final_steps_bound [of F req] final_trajectory_length [of F req]
  by (simp add: simulate_def Let_def)

text \<open>The bound is reached: the request below is stopped by the guard.\<close>

theorem step_guard_bound_witness:
  "SimulationSteps (simulate exact \<lparr>V0 = 1, Angle = 0, H0 = 100, Dt = 1 / 1000000\<rparr>) = 1000001 \<and>
   length (Trajectory (simulate exact \<lparr>V0 = 1, Angle = 0, H0 = 100, Dt = 1 / 1000000\<rparr>)) =
     1000001"
proof -
  have "SimulationSteps (simulate exact \<lparr>V0 = 1, Angle = 0, H0 = 100, Dt = 1 / 1000000\<rparr>) =
      1000001"
    using slow_fall_steps
    by (simp add: simulate_def final_locals_def initial_locals_eq exact_ops Let_def)
  then show ?thesis
    using step_guard_bound [of exact "\<lparr>V0 = 1, Angle = 0, H0 = 100, Dt = 1 / 1000000\<rparr>"]
    by simp
qed

text \<open>
  Claim C3, as written, bounds the step count by 1,000,000. A body dropped from 100 m with
  \<open>dt = 10\<^sup>-\<^sup>6\<close> is still in the air after a million steps, and the count returned is
  1,000,001.
\<close>

theorem step_guard_counterexample:
  "0 < Dt \<lparr>V0 = 1, Angle = 0, H0 = 100, Dt = 1 / 1000000 :: real\<rparr> \<and>
   \<not> SimulationSteps (simulate exact \<lparr>V0 = 1, Angle = 0, H0 = 100, Dt = 1 / 1000000\<rparr>)
       \<le> 1000000"
  using slow_fall_steps
  by (simp add: simulate_def final_locals_def initial_locals_eq exact_ops Let_def)

subsection \<open>C4: where the trajectory ends\<close>

text \<open>
  Claim C4, as the code has it. Every point of the trajectory, so also the last, passed
  the test \<^verbatim>\<open>y >= 0\<close>: a point is appended only at the head of a pass of the loop, under that
  test. When the loop has ended, the height reached by the last Euler step, which is not
  appended, fails the test \<^verbatim>\<open>y >= 0\<close> (it is negative, or it is not a number), or else the
  guard stopped the loop at 1,000,001 steps. The statement is for every arithmetic \<open>F\<close>.
\<close>

theorem trajectory_above_ground:
  "(\<forall>p \<in> set (Trajectory (simulate F req)). fge F (Y p) (fconst F 0)) \<and>
   (\<not> fge F (l_y (final_locals F req)) (fconst F 0) \<or>
    SimulationSteps (simulate F req) = 1000001)"
  using final_heights [of F req] final_exit [of F req] final_steps_bound [of F req]
  by (auto simp: simulate_def Let_def)

text \<open>
  The level shot from height \<open>0\<close>: its only point has \<open>y = 0\<close>, and the height after the
  step fails the test.
\<close>

theorem trajectory_above_ground_witness:
  "fge exact (Y (last (Trajectory (simulate exact \<lparr>V0 = 1, Angle = 0, H0 = 0, Dt = 1\<rparr>))))
     (fconst exact 0) \<and>
   \<not> fge exact (l_y (final_locals exact \<lparr>V0 = 1, Angle = 0, H0 = 0, Dt = 1\<rparr>)) (fconst exact 0)"
  using trajectory_above_ground [of exact "\<lparr>V0 = 1, Angle = 0, H0 = 0, Dt = 1\<rparr>"]
  by (simp add: level_shot level_shot_final exact_ops)

text \<open>
  Claim C4, as written, asks for \<open>y < 0\<close> at the last trajectory point. A level shot with
  \<open>v0 = 1\<close>, \<open>dt = 1\<close> from height \<open>0\<close> is a valid request, ends after one step, and its
  only trajectory point has \<open>y = 0\<close>.
\<close>

theorem last_point_counterexample:
  "0 < V0 \<lparr>V0 = 1, Angle = 0, H0 = 0, Dt = 1 :: real\<rparr> \<and>
   0 \<le> Angle \<lparr>V0 = 1, Angle = 0, H0 = 0, Dt = 1 :: real\<rparr> \<and>
   Angle \<lparr>V0 = 1, Angle = 0, H0 = 0, Dt = 1 :: real\<rparr> \<le> 90 \<and>
   0 < Dt \<lparr>V0 = 1, Angle = 0, H0 = 0, Dt = 1 :: real\<rparr> \<and>
   Trajectory (simulate exact \<lparr>V0 = 1, Angle = 0, H0 = 0, Dt = 1\<rparr>) \<noteq> [] \<and>
   \<not> Y (last (Trajectory (simulate exact \<lparr>V0 = 1, Angle = 0, H0 = 0, Dt = 1\<rparr>))) < 0 \<and>
   SimulationSteps (simulate exact \<lparr>V0 = 1, Angle = 0, H0 = 0, Dt = 1\<rparr>) = 1"
  by (simp add: level_shot)

subsection \<open>C5: the fields of the response\<close>

text \<open>
  Claim C5, as the code has it. For a non-empty trajectory, \<^verbatim>\<open>maxHeight\<close> is the maximum
  \<open>y\<close> of the trajectory points. \<^verbatim>\<open>range\<close>, \<^verbatim>\<open>timeOfFlight\<close> and \<^verbatim>\<open>finalVelocity\<close> are
  read from the variables after the last Euler step, one step past the last trajectory
  point: the range is that point's \<open>x\<close> plus \<open>vx * dt\<close>, the time of flight its \<open>t\<close> plus
  \<open>dt\<close>, and the final velocity \<open>sqrt (vx\<^sup>2 + vy\<^sup>2)\<close> for the velocity \<open>(vx, vy)\<close> after
  that step. It is stated in the arithmetic \<open>exact\<close>, where the maximum is the one of the
  real numbers; the lemmas \<open>response_fields_any\<close> and \<open>final_maxHeight_any\<close> above give the
  same four facts in any arithmetic.
\<close>

theorem result_fields:
  assumes "Trajectory (simulate exact req) \<noteq> []"
  shows "MaxHeight (simulate exact req) = Max (Y ` set (Trajectory (simulate exact req))) \<and>
    Range (simulate exact req) =
      X (last (Trajectory (simulate exact req))) + l_vx (final_locals exact req) * Dt req \<and>
    TimeOfFlight (simulate exact req) = T (last (Trajectory (simulate exact req))) + Dt req \<and>
    FinalVelocity (simulate exact req) =
      sqrt (l_vx (final_locals exact req) * l_vx (final_locals exact req) +
            l_vy (final_locals exact req) * l_vy (final_locals exact req))"
proof -
  from assms have ne: "l_trajectory (final_locals exact req) \<noteq> []"
    by (simp add: simulate_def Let_def)
  with final_after_last [of exact req] obtain s where
    s: "final_locals exact req = loop_body exact (Dt req) s"
    by blast
  have "l_maxHeight (final_locals exact req) =
      Max (Y ` set (l_trajectory (final_locals exact req)))"
    using final_maxHeight [of req] ne by blast
  moreover have "l_x (final_locals exact req) =
      X (last (l_trajectory (final_locals exact req))) + l_vx (final_locals exact req) * Dt req"
    by (simp add: s loop_body_x loop_body_trajectory exact_ops)
  moreover have "l_t (final_locals exact req) =
      T (last (l_trajectory (final_locals exact req))) + Dt req"
    by (simp add: s loop_body_t loop_body_trajectory exact_ops)
  ultimately show ?thesis by (simp add: simulate_def Let_def exact_ops)
qed

text \<open>The level shot: one point, at \<open>x = 0\<close>, \<open>y = 0\<close>, \<open>t = 0\<close>.\<close>

theorem result_fields_witness:
  "Trajectory (simulate exact \<lparr>V0 = 1, Angle = 0, H0 = 0, Dt = 1\<rparr>) \<noteq> [] \<and>
   MaxHeight (simulate exact \<lparr>V0 = 1, Angle = 0, H0 = 0, Dt = 1\<rparr>) = 0 \<and>
   Range (simulate exact \<lparr>V0 = 1, Angle = 0, H0 = 0, Dt = 1\<rparr>) = 0 + 797697 / 800000 * 1 \<and>
   TimeOfFlight (simulate exact \<lparr>V0 = 1, Angle = 0, H0 = 0, Dt = 1\<rparr>) = 0 + 1"
  using result_fields [of "\<lparr>V0 = 1, Angle = 0, H0 = 0, Dt = 1\<rparr>"]
  by (simp add: level_shot level_shot_final)

text \<open>
  Claim C5, as written, takes the range and the final velocity from the last trajectory
  point. For the level shot the last point has \<open>x = 0\<close> and \<open>v = 1\<close>, and the response has
  neither.
\<close>

theorem result_fields_counterexample:
  "Trajectory (simulate exact \<lparr>V0 = 1, Angle = 0, H0 = 0, Dt = 1\<rparr>) \<noteq> [] \<and>
   Range (simulate exact \<lparr>V0 = 1, Angle = 0, H0 = 0, Dt = 1\<rparr>) \<noteq>
     X (last (Trajectory (simulate exact \<lparr>V0 = 1, Angle = 0, H0 = 0, Dt = 1\<rparr>))) \<and>
   FinalVelocity (simulate exact \<lparr>V0 = 1, Angle = 0, H0 = 0, Dt = 1\<rparr>) \<noteq>
     V (last (Trajectory (simulate exact \<lparr>V0 = 1, Angle = 0, H0 = 0, Dt = 1\<rparr>)))"
  by (simp add: level_shot)

subsection \<open>C6: the number of steps and the frames stored\<close>

text \<open>
  Claim C6, as the code has it. When the run returns frames (the test \<^verbatim>\<open>r > 0.5\<close> fails and
  the grid has a cell), the number of update steps is \<^verbatim>\<open>steps = int(totalTime / dt)\<close>, the
  quotient and the conversion being those of the arithmetic: the grid at the end is the
  initial grid after \<open>steps\<close> update steps (none for a negative \<open>steps\<close>). The frames are
  the initial frame and then, for the steps \<open>k\<close> counted from \<open>0\<close> to \<open>steps - 1\<close>, the frame
  after step \<open>k\<close>, which is the state after \<open>k + 1\<close> steps, exactly when \<open>k mod 10 = 0\<close> or
  \<open>k = steps - 1\<close>: after the 1st, the 11th, the 21st step and so on, and after the last
  step. The statement is for every arithmetic \<open>F\<close>.
\<close>

theorem sampling_policy:
  assumes "\<not> fgt F (courant F params) (fconst F 0.5)" and "1 \<le> grid_size F params"
  shows "step_count F params = fint F (fdiv F (TotalTime params) (TimeStep params)) \<and>
    h_T (heat_final F params) =
      h_T ((update_step F params (courant F params) (grid_size F params) ^^
              nat (step_count F params))
            (initial_heat F params (courant F params) (grid_size F params))) \<and>
    simulateHeatConduction F params =
      Inr (snapshot F (courant F params) (grid_size F params div 2)
             (initial_heat F params (courant F params) (grid_size F params)) #
           map (\<lambda>k. snapshot F (courant F params) (grid_size F params div 2)
                  ((update_step F params (courant F params) (grid_size F params) ^^ nat (k + 1))
                     (initial_heat F params (courant F params) (grid_size F params))))
             (filter (\<lambda>k. k mod 10 = 0 \<or> k = step_count F params - 1)
                [0..step_count F params - 1]))"
proof -
  have st: "stored (step_count F params) = (\<lambda>k. k mod 10 = 0 \<or> k = step_count F params - 1)"
    by (simp add: stored_def fun_eq_iff)
  have a: "step_count F params = fint F (fdiv F (TotalTime params) (TimeStep params))"
    by (simp add: step_count_def)
  have b: "h_T (heat_final F params) =
      h_T ((update_step F params (courant F params) (grid_size F params) ^^
              nat (step_count F params))
            (initial_heat F params (courant F params) (grid_size F params)))"
    by (simp add: heat_final_eq)
  from a b heat_run_eq [OF assms] show ?thesis
    unfolding st by blast
qed

text \<open>The plate of three cells, run for 11 steps: the steps 0 and 10 are stored.\<close>

theorem sampling_policy_witness:
  "\<not> fgt exact (courant exact plate) (fconst exact 0.5) \<and> 1 \<le> grid_size exact plate \<and>
   step_count exact plate = 11 \<and>
   filter (\<lambda>k. k mod 10 = 0 \<or> k = step_count exact plate - 1) [0..step_count exact plate - 1] =
     [0, 10] \<and>
   length (projr (simulateHeatConduction exact plate)) = 3"
proof -
  have p: "\<not> fgt exact (courant exact plate) (fconst exact 0.5)" "1 \<le> grid_size exact plate"
    by (simp_all add: plate_numbers exact_ops)
  note s = sampling_policy [OF p]
  note run = s [THEN conjunct2, THEN conjunct2]
  have 1: "step_count exact plate = 11" by (simp add: plate_numbers)
  have 2: "filter (\<lambda>k. k mod 10 = 0 \<or> k = 11 - 1) [0..11 - 1] = [0 :: int, 10]" by code_simp
  have 3: "length (projr (simulateHeatConduction exact plate)) = 3"
    by (simp only: run sum.sel 1 2) simp
  from p 1 2 3 show ?thesis by simp
qed

text \<open>
  Claim C6, as written, stores a frame after every 10th step. A run of 11 steps stores the
  frames at the times 0, 1 and 11; the wording of the specification gives the times 0, 10
  and 11.
\<close>

theorem sampling_policy_counterexample:
  "\<not> fgt exact (courant exact plate) (fconst exact 0.5) \<and>
   map Time (projr (simulateHeatConduction exact plate)) = [0, 1, 11] \<and>
   map Time (frames_every_10th exact plate) = [0, 10, 11] \<and>
   simulateHeatConduction exact plate \<noteq> Inr (frames_every_10th exact plate)"
  by (simp add: plate_run plate_every_10th plate_numbers exact_ops)

subsection \<open>C7: one update step\<close>



subsection \<open>C8: a pass at zero speed\<close>

text \<open>
  Claim C8. In a pass of the loop where the speed \<open>v = sqrt (vx * vx + vy * vy)\<close> passes the
  test \<^verbatim>\<open>v == 0\<close>, the accelerations used are \<open>ax = 0\<close> and \<open>ay = - g\<close>, whatever the quotients
  by \<open>v\<close> gave, and the pass updates the velocities with them: \<open>vx' = vx + 0 * dt\<close> and
  \<open>vy' = vy + (- g) * dt\<close>, as the code computes them. So \<open>vx' = vx\<close> wherever adding
  \<open>0 * dt\<close> changes nothing, and \<open>vy' = vy - g * dt\<close> wherever adding \<open>(- g) * dt\<close> is
  subtracting \<open>g * dt\<close>; in binary64 both hold for every finite \<open>dt\<close>. The
  statement is for every arithmetic \<open>F\<close>; without the branch of lines 72 to 75 it would
  fail, as the witness shows.
\<close>

theorem zero_speed_step:
  assumes "v = fsqrt F (fadd F (fmul F (l_vx s) (l_vx s)) (fmul F (l_vy s) (l_vy s)))"
    and "feq F v (fconst F 0)"
  shows "accelerations F dragForce (l_vx s) (l_vy s) v = (fconst F 0, fconst F (- g)) \<and>
    l_vx (loop_body F dt s) = fadd F (l_vx s) (fmul F (fconst F 0) dt) \<and>
    l_vy (loop_body F dt s) = fadd F (l_vy s) (fmul F (fconst F (- g)) dt) \<and>
    (fadd F (l_vx s) (fmul F (fconst F 0) dt) = l_vx s \<longrightarrow>
       l_vx (loop_body F dt s) = l_vx s) \<and>
    (fadd F (l_vy s) (fmul F (fconst F (- g)) dt) = fsub F (l_vy s) (fmul F (fconst F g) dt) \<longrightarrow>
       l_vy (loop_body F dt s) = fsub F (l_vy s) (fmul F (fconst F g) dt))"
  using assms by (simp add: accelerations_def loop_body_def Let_def)

text \<open>
  In \<open>b64\<close>, at rest: the quotient \<open>vx / v\<close> is \<open>0 / 0\<close>, not a number, and the pass still
  leaves \<open>vx = 0\<close> and gives \<open>vy = - g * dt\<close>.
\<close>

theorem zero_speed_step_witness:
  "feq b64 (fsqrt b64 (fadd b64 (fmul b64 (Num 0) (Num 0)) (fmul b64 (Num 0) (Num 0))))
     (fconst b64 0) \<and>
   fdiv b64 (Num 0) (fsqrt b64 (fadd b64 (fmul b64 (Num 0) (Num 0)) (fmul b64 (Num 0) (Num 0)))) =
     NaN \<and>
   fadd b64 (Num 0) (fmul b64 (fconst b64 0) (Num (1 / 2))) = Num 0 \<and>
   fadd b64 (Num 0) (fmul b64 (fconst b64 (- g)) (Num (1 / 2))) =
     fsub b64 (Num 0) (fmul b64 (fconst b64 g) (Num (1 / 2))) \<and>
   l_vx (loop_body b64 (Num (1 / 2))
          \<lparr>l_vx = Num 0, l_vy = Num 0, l_x = Num 3, l_y = Num 5, l_t = Num 1,
           l_trajectory = [], l_maxHeight = Num 5, l_steps = 0\<rparr>) = Num 0 \<and>
   l_vy (loop_body b64 (Num (1 / 2))
          \<lparr>l_vx = Num 0, l_vy = Num 0, l_x = Num 3, l_y = Num 5, l_t = Num 1,
           l_trajectory = [], l_maxHeight = Num 5, l_steps = 0\<rparr>) = Num (- (981 / 200))"
proof -
  let ?s = "\<lparr>l_vx = Num 0, l_vy = Num 0, l_x = Num 3, l_y = Num 5, l_t = Num 1,
           l_trajectory = [], l_maxHeight = Num 5, l_steps = 0\<rparr>"
  have v: "fsqrt b64 (fadd b64 (fmul b64 (Num 0) (Num 0)) (fmul b64 (Num 0) (Num 0))) = Num 0"
    by (simp add: b64_ops fit_def)
  have z: "feq b64 (Num 0) (fconst b64 0)" by (simp add: b64_ops fit_def)
  have q: "fdiv b64 (Num 0) (Num 0) = NaN" by (simp add: b64_ops)
  have a: "fadd b64 (Num 0) (fmul b64 (fconst b64 0) (Num (1 / 2))) = Num 0"
    by (simp add: b64_ops fit_def)
  have b: "fadd b64 (Num 0) (fmul b64 (fconst b64 (- g)) (Num (1 / 2))) = Num (- (981 / 200))"
    "fsub b64 (Num 0) (fmul b64 (fconst b64 g) (Num (1 / 2))) = Num (- (981 / 200))"
    by (simp_all add: b64_ops b64_sub_def fit_def g_def)
  from zero_speed_step [of "Num 0" b64 ?s _ "Num (1 / 2)"] v z a b
  have "l_vx (loop_body b64 (Num (1 / 2)) ?s) = Num 0"
    "l_vy (loop_body b64 (Num (1 / 2)) ?s) = Num (- (981 / 200))"
    by simp_all
  with v z q a b show ?thesis by simp
qed

subsection \<open>C9: the field Stable\<close>

text \<open>
  Claim C9 says that no frame with \<^verbatim>\<open>stable = false\<close> is ever returned. The code returns
  one. The gate of line 53 tests \<^verbatim>\<open>r > 0.5\<close> and the field is \<^verbatim>\<open>r <= 0.5\<close>, and a ratio that
  is not a number fails both. For the plate whose length, steps and diffusivity are all
  \<open>2\<^sup>6\<^sup>0\<^sup>0\<close>, positive numbers of binary64, \<open>alpha * dt\<close> and \<open>dx * dx\<close> both overflow to
  \<open>+Inf\<close>, so \<open>r\<close> is NaN: the gate lets the run through, and it returns a frame whose
  field \<^verbatim>\<open>Stable\<close> is false.
\<close>

theorem unstable_frame:
  "fgt b64 (Length nan_plate) (fconst b64 0) \<and> fgt b64 (TimeStep nan_plate) (fconst b64 0) \<and>
   fgt b64 (SpaceStep nan_plate) (fconst b64 0) \<and> fgt b64 (TotalTime nan_plate) (fconst b64 0) \<and>
   fgt b64 (Alpha nan_plate) (fconst b64 0) \<and>
   courant b64 nan_plate = NaN \<and>
   simulateHeatConduction b64 nan_plate =
     Inr [\<lparr>Temperatures = [Num 100, Num 0], Time = Num 0, CenterTemp = Num 0,
           Stable = False\<rparr>]"
  by (simp add: nan_plate_run nan_plate_numbers b64_ops)
     (simp add: nan_plate_def fit_def)

subsection \<open>C10: a negative initial height\<close>

text \<open>
  Claim C10, as the code has it. For a request whose initial height fails the test
  \<^verbatim>\<open>y >= 0\<close>, as every \<open>h0 < 0\<close> does, the loop is not entered: the response has an empty
  trajectory, step count \<open>0\<close>, range \<open>0\<close>, time of flight \<open>0\<close>, maximum height \<open>h0\<close>, and as
  final velocity \<open>sqrt (vx * vx + vy * vy)\<close> of the initial components
  \<open>vx = v0 * cos a\<close> and \<open>vy = v0 * sin a\<close>, as the arithmetic computes it. The statement is
  for every arithmetic \<open>F\<close>.
\<close>

theorem negative_height:
  assumes "\<not> fge F (H0 req) (fconst F 0)"
  shows "final_locals F req = initial_locals F req \<and>
    simulate F req =
      \<lparr>Trajectory = [], Range = fconst F 0, MaxHeight = H0 req,
       FinalVelocity =
         fsqrt F (fadd F (fmul F (l_vx (initial_locals F req)) (l_vx (initial_locals F req)))
                         (fmul F (l_vy (initial_locals F req)) (l_vy (initial_locals F req)))),
       TimeOfFlight = fconst F 0, SimulationSteps = 0\<rparr>"
proof -
  have f: "final_locals F req = initial_locals F req"
    unfolding final_locals_def using assms
    by (subst flight_loop.simps) (simp add: initial_locals_eq)
  show ?thesis by (simp add: f simulate_def Let_def) (simp add: initial_locals_eq)
qed

text \<open>
  A level shot from height \<open>- 1\<close>, which the validation of \<^verbatim>\<open>simulateHandler\<close> lets through;
  here the final velocity is \<open>v0 = 1\<close>.
\<close>

theorem negative_height_witness:
  "\<not> fge exact (H0 \<lparr>V0 = 1, Angle = 0, H0 = - 1, Dt = 1\<rparr>) (fconst exact 0) \<and>
   simulateHandler exact \<lparr>V0 = 1, Angle = 0, H0 = - 1, Dt = 1\<rparr> =
     Inr \<lparr>Trajectory = [], Range = 0, MaxHeight = - 1, FinalVelocity = 1,
      TimeOfFlight = 0, SimulationSteps = 0\<rparr>"
  using negative_height [of exact "\<lparr>V0 = 1, Angle = 0, H0 = - 1, Dt = 1\<rparr>"]
  by (simp add: simulateHandler_def initial_locals_eq exact_ops)

text \<open>
  Claim C10, as written, gives \<open>v0\<close> as the final velocity. For the level shot with
  \<open>v0 = 2\<^sup>6\<^sup>0\<^sup>0\<close> from height \<open>- 1\<close>, which the validation lets through, \<open>vx * vx\<close> overflows and
  the final velocity returned is \<open>+Inf\<close>, not \<open>v0\<close>.
\<close>

theorem negative_height_counterexample:
  "flt b64 (H0 fast_shot) (fconst b64 0) \<and> V0 fast_shot = Num (2 ^ 600) \<and>
   simulateHandler b64 fast_shot =
     Inr \<lparr>Trajectory = [], Range = Num 0, MaxHeight = Num (- 1), FinalVelocity = PInf,
      TimeOfFlight = Num 0, SimulationSteps = 0\<rparr> \<and>
   FinalVelocity (simulate b64 fast_shot) \<noteq> V0 fast_shot"
  by (simp add: simulateHandler_def fast_shot_run b64_ops b64_le_def)
     (simp add: fast_shot_def fit_def)

end
